theory Spec2Isabelle
  imports Complex_Main "HOL-Library.Multiset"
begin

section \<open>Data model\<close>

text \<open>
  A Python \<open>str\<close> is a sequence of Unicode code points. Review texts, authors and dates
  and digests are kept as such sequences; language codes and dictionary keys, which the
  program only compares and passes on, are kept as \<open>string\<close>.
\<close>

type_synonym pystr = "nat list"

text \<open>The checks of \<open>ConfigManager._validate_config\<close>, one per \<open>raise ValueError\<close>.\<close>

datatype config_check =
    MissingSection string
  | MaxRetriesInvalid
  | TimeoutInvalid
  | MinConfidenceInvalid
  | TelegramTokenRequired
  | ChatIdRequired
  | MaxSizeInvalid
  | LevelInvalid

text \<open>
  The exception classes the program raises or catches. \<open>NetworkError\<close> and
  \<open>ParsingError\<close> are the two subclasses of \<open>ParserError\<close> (src/parser.py),
  \<open>ValidationError\<close> is a subclass of \<open>SecurityError\<close> (src/security.py); all are
  subclasses of \<open>Exception\<close>, and \<open>OtherException\<close> stands for every other one.
\<close>

datatype error =
    NetworkError string
  | ParsingError string
  | SecurityError string
  | ValidationError string
  | TranslationError string
  | LangDetectException
  | ValueError config_check
  | AttributeError string
  | TypeError string
  | KeyError string
  | UnicodeEncodeError string
  | UnboundLocalError string
  | OtherException string

text \<open>
  The Python values the program handles where it does not know their type: the argument
  of \<open>analyze_sentiment\<close> and the content of the configuration file (what \<open>json.load\<close>
  returns). A dictionary is the list of its items; its keys are distinct.
\<close>

datatype pyval =
    PyNone
  | PyBool bool
  | PyInt int
  | PyFloat real
  | PyStr pystr
  | PyList "pyval list"
  | PyDict "(string \<times> pyval) list"

text \<open>The truth value of an object, as \<open>not x\<close> and \<open>if x\<close> test it.\<close>

fun truthy :: "pyval \<Rightarrow> bool" where
  "truthy PyNone = False"
| "truthy (PyBool b) = b"
| "truthy (PyInt n) = (n \<noteq> 0)"
| "truthy (PyFloat x) = (x \<noteq> 0)"
| "truthy (PyStr s) = (s \<noteq> [])"
| "truthy (PyList xs) = (xs \<noteq> [])"
| "truthy (PyDict kvs) = (kvs \<noteq> [])"

text \<open>\<open>isinstance(x, str)\<close>.\<close>

fun isinstance_str :: "pyval \<Rightarrow> bool" where
  "isinstance_str (PyStr s) = True"
| "isinstance_str v = False"

text \<open>\<open>isinstance(x, int)\<close>: \<open>bool\<close> is a subclass of \<open>int\<close>.\<close>

fun isinstance_int :: "pyval \<Rightarrow> bool" where
  "isinstance_int (PyInt n) = True"
| "isinstance_int (PyBool b) = True"
| "isinstance_int v = False"

text \<open>\<open>isinstance(x, (int, float))\<close>.\<close>

fun isinstance_number :: "pyval \<Rightarrow> bool" where
  "isinstance_number (PyFloat x) = True"
| "isinstance_number v = isinstance_int v"

text \<open>The value of a number in a comparison; \<open>True\<close> is 1 and \<open>False\<close> is 0.\<close>

fun number_value :: "pyval \<Rightarrow> real" where
  "number_value (PyInt n) = real_of_int n"
| "number_value (PyBool b) = (if b then 1 else 0)"
| "number_value (PyFloat x) = x"
| "number_value v = 0"

text \<open>A string literal of the source as a \<open>str\<close> value.\<close>

definition str_of :: "string \<Rightarrow> pystr" where
  "str_of s = map of_char s"

text \<open>The dataclass \<open>Review\<close> of src/parser.py.\<close>

record review =
  r_text :: pystr
  r_rating :: real
  r_author :: pystr
  r_date :: pystr

text \<open>
  A cache entry: the dictionary with the keys \<open>text\<close>, \<open>hash\<close>, \<open>sentiment\<close>,
  \<open>language\<close>, \<open>rating\<close>, \<open>author\<close>, \<open>date\<close> that \<open>process_reviews_batch\<close> appends.
\<close>

record cache_entry =
  c_text :: pystr
  c_hash :: pystr
  c_sentiment :: real
  c_language :: string
  c_rating :: real
  c_author :: pystr
  c_date :: pystr

section \<open>The fetch-and-retry controller (src/parser.py)\<close>

text \<open>
  \<open>ReviewParser._load_reviews\<close> drives a browser; the program sees only its outcome:
  a list of reviews or an exception. The parser is modelled by its \<open>max_retries\<close> and by
  the outcome of each successive call of \<open>_load_reviews\<close>, numbered from 0.
\<close>

record ReviewParser =
  max_retries :: int
  load_reviews :: "nat \<Rightarrow> error + review list"

text \<open>
  What \<open>parse_reviews\<close> did besides returning: the number of calls of
  \<open>_load_reviews\<close>, the arguments of \<open>time.sleep\<close> in order, and the number of calls of
  \<open>cleanup\<close>.
\<close>

record fetch_trace =
  loads :: nat
  sleeps :: "nat list"
  cleanups :: nat

text \<open>
  The loop \<open>for attempt in range(self.max_retries)\<close>, entered at \<open>attempt\<close>. The result
  is \<open>Inl e\<close> when \<open>e\<close> is raised, \<open>Inr (Some L)\<close> when \<open>L\<close> is returned, and
  \<open>Inr None\<close> when the loop ends without a return (Python then returns \<open>None\<close>).
\<close>

function parse_reviews_from ::
  "ReviewParser \<Rightarrow> nat \<Rightarrow> fetch_trace \<Rightarrow> (error + review list option) \<times> fetch_trace" where
  "parse_reviews_from self attempt tr =
     (if int attempt < max_retries self then
        (case load_reviews self (loads tr) of
           Inr reviews \<Rightarrow> (Inr (Some reviews), tr\<lparr>loads := loads tr + 1\<rparr>)
         | Inl (NetworkError m) \<Rightarrow>
             (if int attempt = max_retries self - 1
              then (Inl (NetworkError m), tr\<lparr>loads := loads tr + 1\<rparr>)
              else parse_reviews_from self (attempt + 1)
                     (tr\<lparr>loads := loads tr + 1, sleeps := sleeps tr @ [2 ^ attempt],
                         cleanups := cleanups tr + 1\<rparr>))
         | Inl e \<Rightarrow> (Inl e, tr\<lparr>loads := loads tr + 1\<rparr>))
      else (Inr None, tr))"
  by pat_completeness auto
termination
  by (relation "measure (\<lambda>(self, attempt, tr). nat (max_retries self - int attempt))") auto

declare parse_reviews_from.simps [simp del]

definition parse_reviews ::
  "ReviewParser \<Rightarrow> (error + review list option) \<times> fetch_trace" where
  "parse_reviews self = parse_reviews_from self 0 \<lparr>loads = 0, sleeps = [], cleanups = 0\<rparr>"

text \<open>The parser's first \<open>j\<close> loads, from call number \<open>i\<close> on, all raise \<open>NetworkError\<close>.\<close>

definition network_failures :: "ReviewParser \<Rightarrow> nat \<Rightarrow> nat \<Rightarrow> bool" where
  "network_failures self i j =
     list_all (\<lambda>n. case load_reviews self n of Inl (NetworkError m) \<Rightarrow> True | _ \<Rightarrow> False)
       [i..<j]"

text \<open>The trace after the loads number \<open>i\<close> to \<open>j\<close>, of which only the last ends the loop.\<close>

definition retry_trace :: "fetch_trace \<Rightarrow> nat \<Rightarrow> nat \<Rightarrow> fetch_trace" where
  "retry_trace tr i j =
     tr\<lparr>loads := loads tr + (j - i) + 1, sleeps := sleeps tr @ map (\<lambda>a. 2 ^ a) [i..<j],
        cleanups := cleanups tr + (j - i)\<rparr>"

text \<open>
  Attempt \<open>j\<close> ends the loop: it is the last one allowed, or its load does not raise
  \<open>NetworkError\<close>.
\<close>

definition halts_at :: "ReviewParser \<Rightarrow> nat \<Rightarrow> bool" where
  "halts_at self j =
     (int j = max_retries self - 1 \<or>
      (case load_reviews self j of Inl (NetworkError m) \<Rightarrow> False | _ \<Rightarrow> True))"

section \<open>The sentiment analyzer (src/analyzer.py)\<close>

text \<open>
  A \<open>SentimentAnalyzer\<close> with what it calls outside the repository: \<open>langdetect.detect\<close>,
  the translator's \<open>translate\<close>, the polarity of \<open>TextBlob\<close>, each returning a value or
  raising, and the Unicode tables of \<open>re\<close> and \<open>str.strip\<close> for the code points from 128
  on (\<open>isalnum\<close> decides \<open>\w\<close> together with the underscore, \<open>isspace\<close> decides
  \<open>\s\<close>). The \<open>lru_cache\<close> of the methods only saves calls and is left out.
\<close>

record SentimentAnalyzer =
  target_language :: string
  max_workers :: int
  detect :: "pystr \<Rightarrow> error + string"
  translate :: "pystr \<Rightarrow> string \<Rightarrow> error + pystr"
  polarity :: "pystr \<Rightarrow> error + real"
  isalnum :: "nat \<Rightarrow> bool"
  isspace :: "nat \<Rightarrow> bool"

text \<open>\<open>\w\<close> on a \<open>str\<close> pattern: letters, digits and the underscore.\<close>

definition word_char :: "SentimentAnalyzer \<Rightarrow> nat \<Rightarrow> bool" where
  "word_char self c =
     (if c < 128
      then (48 \<le> c \<and> c \<le> 57) \<or> (65 \<le> c \<and> c \<le> 90) \<or> c = 95 \<or> (97 \<le> c \<and> c \<le> 122)
      else isalnum self c)"

text \<open>
  \<open>\s\<close> on a \<open>str\<close> pattern, which is also what \<open>str.strip()\<close> removes: in ASCII
  the characters 9 to 13, 28 to 31 and the space.
\<close>

definition space_char :: "SentimentAnalyzer \<Rightarrow> nat \<Rightarrow> bool" where
  "space_char self c =
     (if c < 128 then (9 \<le> c \<and> c \<le> 13) \<or> (28 \<le> c \<and> c \<le> 31) \<or> c = 32
      else isspace self c)"

text \<open>The class \<open>[\w\s.,!?-]\<close>, whose complement the first substitution replaces.\<close>

definition kept_char :: "SentimentAnalyzer \<Rightarrow> nat \<Rightarrow> bool" where
  "kept_char self c =
     (word_char self c \<or> space_char self c \<or> c = 46 \<or> c = 44 \<or> c = 33 \<or> c = 63 \<or> c = 45)"

text \<open>\<open>re.sub(r'[^\w\s.,!?-]', ' ', text)\<close>.\<close>

definition replace_special :: "SentimentAnalyzer \<Rightarrow> pystr \<Rightarrow> pystr" where
  "replace_special self s = map (\<lambda>c. if kept_char self c then c else 32) s"

text \<open>\<open>re.sub(r'\s+', ' ', text)\<close>: every maximal run of whitespace becomes one space.\<close>

function collapse_spaces :: "SentimentAnalyzer \<Rightarrow> pystr \<Rightarrow> pystr" where
  "collapse_spaces self [] = []"
| "collapse_spaces self (c # cs) =
     (if space_char self c then 32 # collapse_spaces self (dropWhile (space_char self) cs)
      else c # collapse_spaces self cs)"
  by pat_completeness auto
termination
  by (relation "measure (\<lambda>(self, s). length s)")
     (auto simp: length_dropWhile_le less_Suc_eq_le)

text \<open>\<open>text.strip()\<close>.\<close>

definition strip :: "SentimentAnalyzer \<Rightarrow> pystr \<Rightarrow> pystr" where
  "strip self s = rev (dropWhile (space_char self) (rev (dropWhile (space_char self) s)))"

definition preprocess_text :: "SentimentAnalyzer \<Rightarrow> pyval \<Rightarrow> pystr" where
  "preprocess_text self text =
     (if \<not> truthy text \<or> \<not> isinstance_str text then []
      else (case text of
              PyStr s \<Rightarrow> strip self (collapse_spaces self (replace_special self s))
            | _ \<Rightarrow> []))"

text \<open>
  \<open>_detect_language\<close>: both handlers, for \<open>LangDetectException\<close> and for any other
  exception, return \<open>'unknown'\<close>.
\<close>

definition detect_language :: "SentimentAnalyzer \<Rightarrow> pyval \<Rightarrow> string" where
  "detect_language self text =
     (if \<not> truthy text \<or> \<not> isinstance_str text then ''unknown''
      else (case text of
              PyStr s \<Rightarrow>
                (case detect self s of
                   Inr lang \<Rightarrow> lang
                 | Inl LangDetectException \<Rightarrow> ''unknown''
                 | Inl e \<Rightarrow> ''unknown'')
            | _ \<Rightarrow> ''unknown''))"

definition get_sentiment :: "SentimentAnalyzer \<Rightarrow> pyval \<Rightarrow> real" where
  "get_sentiment self text =
     (if \<not> truthy text \<or> \<not> isinstance_str text then 0
      else (case text of
              PyStr s \<Rightarrow> (case polarity self s of Inr p \<Rightarrow> p | Inl e \<Rightarrow> 0)
            | _ \<Rightarrow> 0))"

text \<open>
  The body of the \<open>try\<close> of \<open>analyze_sentiment\<close>, entered with a non-empty \<open>str\<close>.
  The translator returns a \<open>str\<close>, as its signature says. The helper methods catch
  their own exceptions and the call of the translator has its own handler, so the outer
  handler of \<open>analyze_sentiment\<close> has nothing left to catch.
\<close>

definition analyze_sentiment_try :: "SentimentAnalyzer \<Rightarrow> pyval \<Rightarrow> error + real \<times> string" where
  "analyze_sentiment_try self text0 =
     (let text = preprocess_text self text0 in
      if text = [] then Inr (0, ''unknown'')
      else
        let detected_lang = detect_language self (PyStr text) in
        if detected_lang \<noteq> target_language self then
          (case translate self text (target_language self) of
             Inl e \<Rightarrow> Inr (0, detected_lang)
           | Inr translated \<Rightarrow> Inr (get_sentiment self (PyStr translated), detected_lang))
        else Inr (get_sentiment self (PyStr text), detected_lang))"

definition analyze_sentiment :: "SentimentAnalyzer \<Rightarrow> pyval \<Rightarrow> error + real \<times> string" where
  "analyze_sentiment self text =
     (if \<not> truthy text \<or> \<not> isinstance_str text then Inr (0, ''unknown'')
      else (case analyze_sentiment_try self text of
              Inr result \<Rightarrow> Inr result
            | Inl e \<Rightarrow> Inr (0, ''unknown'')))"

text \<open>
  An argument of any class: a value of the kinds above, or an object of another class,
  which is no \<open>str\<close> and is given by what its truth test does, return or raise.
\<close>

datatype pyobject = Plain pyval | Other "error + bool"

text \<open>
  \<open>analyze_sentiment\<close> on any argument. The guard \<open>not text or not isinstance(text,
  str)\<close> stands before the \<open>try\<close>: when the truth test of the argument raises, so does
  the call; an object of another class whose truth test returns is no \<open>str\<close>.
\<close>

definition analyze_sentiment_of :: "SentimentAnalyzer \<Rightarrow> pyobject \<Rightarrow> error + real \<times> string" where
  "analyze_sentiment_of self obj =
     (case obj of
        Plain v \<Rightarrow> analyze_sentiment self v
      | Other (Inl e) \<Rightarrow> Inl e
      | Other (Inr b) \<Rightarrow> Inr (0, ''unknown''))"

text \<open>
  \<open>analyze_batch\<close> submits one call of \<open>analyze_sentiment\<close> per text to a thread pool and
  collects the results as the calls complete; a call that raised counts as
  \<open>(0.0, 'unknown')\<close>. The futures are numbered as they are submitted, and \<open>completed\<close>
  is the order in which \<open>as_completed\<close> yields them. \<open>ThreadPoolExecutor\<close> raises when
  \<open>max_workers\<close> is not positive (a \<open>ValueError\<close> of the library, kept here as
  \<open>OtherException\<close> with its message).
\<close>

definition analyze_batch ::
  "SentimentAnalyzer \<Rightarrow> nat list \<Rightarrow> pyobject list \<Rightarrow> error + (real \<times> string) list" where
  "analyze_batch self completed texts =
     (if texts = [] then Inr []
      else if max_workers self \<le> 0 then Inl (OtherException ''max_workers must be greater than 0'')
      else Inr (map (\<lambda>future. case analyze_sentiment_of self (texts ! future) of
                                 Inr result \<Rightarrow> result
                               | Inl e \<Rightarrow> (0, ''unknown''))
                 completed))"

text \<open>\<open>completed\<close> yields each of the futures of \<open>texts\<close> once.\<close>

definition completion_order :: "nat list \<Rightarrow> pyobject list \<Rightarrow> bool" where
  "completion_order completed texts = (mset completed = mset [0..<length texts])"

section \<open>The security manager (src/security.py)\<close>

text \<open>
  A \<open>SecurityManager\<close> instance: the attributes \<open>__init__\<close> sets (the logger apart),
  and the digest \<open>hashlib.sha256(b).hexdigest()\<close> of the UTF-8 bytes \<open>b\<close> of a text, a
  function of the text.
\<close>

record SecurityManager =
  key_file :: string
  fernet :: string
  sha256_hexdigest :: "pystr \<Rightarrow> pystr"

text \<open>
  \<open>hash_data\<close>: \<open>data.encode()\<close> raises \<open>UnicodeEncodeError\<close> on a text that holds a
  surrogate (a code point from D800 to DFFF), which UTF-8 cannot encode.
\<close>

definition surrogate :: "nat \<Rightarrow> bool" where
  "surrogate c = (55296 \<le> c \<and> c \<le> 57343)"

definition encodable :: "pystr \<Rightarrow> bool" where
  "encodable data = (\<not> list_ex surrogate data)"

definition hash_data :: "SecurityManager \<Rightarrow> pystr \<Rightarrow> error + pystr" where
  "hash_data self data =
     (if encodable data then Inr (sha256_hexdigest self data)
      else Inl (UnicodeEncodeError ''surrogates not allowed''))"

text \<open>The names bound in an instance by \<open>__init__\<close> and in the class by its \<open>def\<close>s.\<close>

definition SecurityManager_attributes :: "string list" where
  "SecurityManager_attributes = [''logger'', ''key_file'', ''fernet'']"

definition SecurityManager_methods :: "string list" where
  "SecurityManager_methods =
     [''__init__'', ''_initialize_encryption'', ''encrypt_data'', ''decrypt_data'',
      ''generate_secure_token'', ''hash_data'', ''validate_url'', ''validate_telegram_token'',
      ''validate_chat_id'', ''sanitize_text'', ''secure_config'', ''load_secure_config'',
      ''save_secure_config'', ''validate_review'']"

text \<open>
  \<open>security_manager.name(arg)\<close>: the class defines no \<open>__getattr__\<close>, so a name that is
  neither an attribute nor a method raises \<open>AttributeError\<close>; \<open>bound\<close> is what the call
  does when the name exists.
\<close>

definition call_method ::
  "SecurityManager \<Rightarrow> string \<Rightarrow> (string \<Rightarrow> error + 'a) \<Rightarrow> string \<Rightarrow> error + 'a" where
  "call_method security_manager name bound arg =
     (if name \<in> set (SecurityManager_attributes @ SecurityManager_methods) then bound arg
      else Inl (AttributeError name))"

text \<open>
  \<open>validate_review\<close> as \<open>process_reviews_batch\<close> calls it, on a \<open>Review\<close> object: the
  first test, \<open>field in review\<close>, raises \<open>TypeError\<close> (the dataclass is no container), and
  the method's own \<open>except Exception\<close> returns \<open>False\<close>.
\<close>

definition validate_review :: "SecurityManager \<Rightarrow> review \<Rightarrow> bool" where
  "validate_review self review = False"

section \<open>The batch (main.py)\<close>

text \<open>\<open>load_cache\<close>: each of the three handlers logs and returns the empty list.\<close>

definition load_cache ::
  "SecurityManager \<Rightarrow> (string \<Rightarrow> error + cache_entry list) \<Rightarrow> error + cache_entry list" where
  "load_cache security_manager bound =
     (case call_method security_manager ''load_secure_cache'' bound ''reviews_cache.json'' of
        Inr cache \<Rightarrow> Inr cache
      | Inl (SecurityError m) \<Rightarrow> Inr []
      | Inl (ValidationError m) \<Rightarrow> Inr []
      | Inl e \<Rightarrow> Inr [])"

text \<open>The cache \<open>main\<close> starts from: \<open>load_cache\<close> when the cache is enabled.\<close>

definition initial_cache ::
  "bool \<Rightarrow> SecurityManager \<Rightarrow> (string \<Rightarrow> error + cache_entry list) \<Rightarrow> error + cache_entry list" where
  "initial_cache enabled security_manager bound =
     (if enabled then load_cache security_manager bound else Inr [])"

text \<open>
  The test of the first loop, \<open>any(cached['hash'] == review_hash for cached in cache)\<close>.
\<close>

definition is_cached :: "cache_entry list \<Rightarrow> pystr \<Rightarrow> bool" where
  "is_cached cache review_hash = list_ex (\<lambda>cached. c_hash cached = review_hash) cache"

text \<open>
  The first loop, which collects the new reviews. It runs outside the \<open>try\<close> of the
  second loop: when \<open>hash_data\<close> raises on a review, the loop ends with that exception.
\<close>

fun filter_new ::
  "SecurityManager \<Rightarrow> cache_entry list \<Rightarrow> review list \<Rightarrow> error + review list" where
  "filter_new security_manager cache [] = Inr []"
| "filter_new security_manager cache (review # rest) =
     (case hash_data security_manager (r_text review) of
        Inl e \<Rightarrow> Inl e
      | Inr review_hash \<Rightarrow>
          (case filter_new security_manager cache rest of
             Inl e \<Rightarrow> Inl e
           | Inr new_reviews \<Rightarrow>
               Inr (if \<not> is_cached cache review_hash then review # new_reviews
                    else new_reviews)))"

text \<open>The entry appended for a review.\<close>

definition new_entry :: "review \<Rightarrow> pystr \<Rightarrow> real \<Rightarrow> string \<Rightarrow> cache_entry" where
  "new_entry review review_hash sentiment lang =
     \<lparr>c_text = r_text review, c_hash = review_hash,
      c_sentiment = sentiment, c_language = lang, c_rating = r_rating review,
      c_author = r_author review, c_date = r_date review\<rparr>"

text \<open>
  The second loop. The value of \<open>validate_review\<close> is not used; an exception of the
  analysis, or of \<open>hash_data\<close> while the entry is built, is logged and the review
  skipped.
\<close>

fun analyze_reviews ::
  "SentimentAnalyzer \<Rightarrow> SecurityManager \<Rightarrow> review list \<Rightarrow> cache_entry list \<Rightarrow> cache_entry list" where
  "analyze_reviews analyzer security_manager [] cache = cache"
| "analyze_reviews analyzer security_manager (review # rest) cache =
     (let valid = validate_review security_manager review in
      case analyze_sentiment analyzer (PyStr (r_text review)) of
        Inr (sentiment, lang) \<Rightarrow>
          (case hash_data security_manager (r_text review) of
             Inr review_hash \<Rightarrow>
               analyze_reviews analyzer security_manager rest
                 (cache @ [new_entry review review_hash sentiment lang])
           | Inl e \<Rightarrow> analyze_reviews analyzer security_manager rest cache)
      | Inl e \<Rightarrow> analyze_reviews analyzer security_manager rest cache)"

text \<open>
  \<open>process_reviews_batch\<close>. When \<open>parse_reviews\<close> returns \<open>None\<close>, \<open>len(reviews)\<close> raises
  \<open>TypeError\<close>, which the last handler catches, as it catches an exception of the first
  loop; nothing is appended before the second loop.
\<close>

definition process_reviews_batch ::
  "ReviewParser \<Rightarrow> SentimentAnalyzer \<Rightarrow> SecurityManager \<Rightarrow> cache_entry list \<Rightarrow> cache_entry list" where
  "process_reviews_batch parser analyzer security_manager cache =
     (case fst (parse_reviews parser) of
        Inr (Some reviews) \<Rightarrow>
          (case filter_new security_manager cache reviews of
             Inr new_reviews \<Rightarrow>
               if new_reviews = [] then cache
               else analyze_reviews analyzer security_manager new_reviews cache
           | Inl e \<Rightarrow> cache)
      | Inr None \<Rightarrow> cache
      | Inl (NetworkError m) \<Rightarrow> cache
      | Inl (ParsingError m) \<Rightarrow> cache
      | Inl e \<Rightarrow> cache)"



text \<open>
  The construction of the analyzer in \<open>main\<close> (line 178) is a call with keyword
  arguments: a keyword that is no parameter of \<open>__init__\<close> raises \<open>TypeError\<close>.
\<close>

definition SentimentAnalyzer_parameters :: "string list" where
  "SentimentAnalyzer_parameters = [''target_language'', ''max_workers'']"

definition main_analyzer_keywords :: "string list" where
  "main_analyzer_keywords = [''target_language'', ''min_confidence'', ''batch_size'']"

definition call_with_keywords :: "string list \<Rightarrow> string list \<Rightarrow> error + unit" where
  "call_with_keywords parameters keywords =
     (case find (\<lambda>keyword. keyword \<notin> set parameters) keywords of
        Some keyword \<Rightarrow> Inl (TypeError keyword)
      | None \<Rightarrow> Inr ())"

section \<open>The configuration (src/config.py)\<close>

text \<open>The configuration is the dictionary \<open>json.load\<close> returns, as the list of its items.\<close>

type_synonym config = "(string \<times> pyval) list"

definition required_sections :: "string list" where
  "required_sections = [''parser'', ''analyzer'', ''notifier'', ''cache'', ''logging'', ''security'']"

definition valid_levels :: "pyval list" where
  "valid_levels = map (\<lambda>level. PyStr (str_of level))
     [''DEBUG'', ''INFO'', ''WARNING'', ''ERROR'', ''CRITICAL'']"

text \<open>\<open>config[key]\<close>.\<close>

definition subscript :: "config \<Rightarrow> string \<Rightarrow> error + pyval" where
  "subscript config key =
     (case map_of config key of Some v \<Rightarrow> Inr v | None \<Rightarrow> Inl (KeyError key))"

text \<open>
  \<open>d.get(key)\<close>: \<open>None\<close> for a missing key; only a dictionary has the method, on any
  other value the call raises \<open>AttributeError\<close>.
\<close>

definition dict_get :: "pyval \<Rightarrow> string \<Rightarrow> error + pyval" where
  "dict_get d key =
     (case d of
        PyDict items \<Rightarrow> Inr (case map_of items key of Some v \<Rightarrow> v | None \<Rightarrow> PyNone)
      | _ \<Rightarrow> Inl (AttributeError ''get''))"

text \<open>One statement after another: the second runs when the first did not raise.\<close>

definition then_do :: "error + unit \<Rightarrow> error + unit \<Rightarrow> error + unit" where
  "then_do first second = (case first of Inl e \<Rightarrow> Inl e | Inr u \<Rightarrow> second)"

text \<open>
  \<open>if not isinstance(d.get(key), int) or d[key] < 1: raise ValueError(...)\<close>, the test of
  \<open>max_retries\<close>, \<open>timeout\<close> and \<open>max_size\<close>.
\<close>

definition check_positive_int :: "pyval \<Rightarrow> string \<Rightarrow> config_check \<Rightarrow> error + unit" where
  "check_positive_int d key failed =
     (case dict_get d key of
        Inl e \<Rightarrow> Inl e
      | Inr v \<Rightarrow>
          if \<not> isinstance_int v \<or> number_value v < 1 then Inl (ValueError failed) else Inr ())"

definition validate_parser :: "pyval \<Rightarrow> error + unit" where
  "validate_parser parser =
     then_do (check_positive_int parser ''max_retries'' MaxRetriesInvalid)
             (check_positive_int parser ''timeout'' TimeoutInvalid)"

definition validate_analyzer :: "pyval \<Rightarrow> error + unit" where
  "validate_analyzer analyzer =
     (case dict_get analyzer ''min_confidence'' of
        Inl e \<Rightarrow> Inl e
      | Inr v \<Rightarrow>
          if \<not> isinstance_number v \<or> \<not> (0 \<le> number_value v \<and> number_value v \<le> 1)
          then Inl (ValueError MinConfidenceInvalid) else Inr ())"

definition validate_notifier :: "pyval \<Rightarrow> error + unit" where
  "validate_notifier notifier =
     (case dict_get notifier ''enabled'' of
        Inl e \<Rightarrow> Inl e
      | Inr enabled \<Rightarrow>
          if truthy enabled then
            (case dict_get notifier ''telegram_token'' of
               Inl e \<Rightarrow> Inl e
             | Inr token \<Rightarrow>
                 if \<not> truthy token then Inl (ValueError TelegramTokenRequired)
                 else (case dict_get notifier ''chat_id'' of
                         Inl e \<Rightarrow> Inl e
                       | Inr chat_id \<Rightarrow>
                           if \<not> truthy chat_id then Inl (ValueError ChatIdRequired)
                           else Inr ()))
          else Inr ())"

definition validate_cache :: "pyval \<Rightarrow> error + unit" where
  "validate_cache cache = check_positive_int cache ''max_size'' MaxSizeInvalid"

definition validate_logging :: "pyval \<Rightarrow> error + unit" where
  "validate_logging logging_config =
     (case dict_get logging_config ''level'' of
        Inl e \<Rightarrow> Inl e
      | Inr level \<Rightarrow> if level \<notin> set valid_levels then Inl (ValueError LevelInvalid) else Inr ())"

text \<open>A section is read with \<open>config[name]\<close> and then validated.\<close>

definition validate_section :: "config \<Rightarrow> string \<Rightarrow> (pyval \<Rightarrow> error + unit) \<Rightarrow> error + unit" where
  "validate_section config name validate =
     (case subscript config name of Inl e \<Rightarrow> Inl e | Inr section \<Rightarrow> validate section)"

text \<open>\<open>_validate_config\<close>: \<open>Inr ()\<close> when it returns, \<open>Inl e\<close> when it raises \<open>e\<close>.\<close>

definition validate_config :: "config \<Rightarrow> error + unit" where
  "validate_config config =
     (case find (\<lambda>section. map_of config section = None) required_sections of
        Some section \<Rightarrow> Inl (ValueError (MissingSection section))
      | None \<Rightarrow>
          then_do (validate_section config ''parser'' validate_parser)
         (then_do (validate_section config ''analyzer'' validate_analyzer)
         (then_do (validate_section config ''notifier'' validate_notifier)
         (then_do (validate_section config ''cache'' validate_cache)
                  (validate_section config ''logging'' validate_logging)))))"

text \<open>
  The dictionary \<open>_create_default_config\<close> builds from the defaults of the dataclasses.
\<close>

definition default_config :: config where
  "default_config =
     [(''parser'', PyDict
         [(''max_retries'', PyInt 3), (''timeout'', PyInt 10), (''max_workers'', PyInt 4),
          (''scroll_pause_time'', PyFloat 2), (''max_reviews'', PyNone),
          (''min_rating'', PyFloat 0), (''max_rating'', PyFloat 5)]),
      (''analyzer'', PyDict
         [(''target_language'', PyStr (str_of ''en'')), (''min_confidence'', PyFloat (6 / 10)),
          (''batch_size'', PyInt 10), (''cache_size'', PyInt 1000),
          (''sentiment_thresholds'', PyDict
             [(''positive'', PyFloat (3 / 10)), (''negative'', PyFloat (- (3 / 10))),
              (''neutral'', PyFloat 0)])]),
      (''notifier'', PyDict
         [(''enabled'', PyBool True), (''telegram_token'', PyStr []), (''chat_id'', PyStr []),
          (''notify_on_negative'', PyBool True), (''notify_on_error'', PyBool True),
          (''notify_on_startup'', PyBool True), (''notify_on_shutdown'', PyBool True)]),
      (''cache'', PyDict
         [(''enabled'', PyBool True), (''max_size'', PyInt 1000), (''ttl_days'', PyInt 30),
          (''compression'', PyBool True), (''backup_count'', PyInt 5)]),
      (''logging'', PyDict
         [(''level'', PyStr (str_of ''INFO'')), (''directory'', PyStr (str_of ''logs'')),
          (''max_bytes'', PyInt (10 * 1024 * 1024)), (''backup_count'', PyInt 5),
          (''format'', PyStr (str_of ''json'')), (''console_output'', PyBool True)]),
      (''security'', PyDict
         [(''hash_algorithm'', PyStr (str_of ''sha256'')), (''min_password_length'', PyInt 8),
          (''max_login_attempts'', PyInt 3), (''session_timeout'', PyInt 3600),
          (''allowed_ips'', PyList [PyStr (str_of ''127.0.0.1'')])])]"

text \<open>
  \<open>save_config\<close> and \<open>load_config\<close>. \<open>update_configs\<close> is \<open>_update_configs\<close>, which
  builds the dataclasses and may raise; \<open>file\<close> is the content of the configuration file,
  \<open>None\<close> when there is no file: then the default configuration is saved first and read
  back. Both functions log an exception and raise it again.
\<close>

definition save_config :: "(config \<Rightarrow> error + unit) \<Rightarrow> config \<Rightarrow> error + unit" where
  "save_config update_configs config = then_do (validate_config config) (update_configs config)"

definition load_config :: "(config \<Rightarrow> error + unit) \<Rightarrow> config option \<Rightarrow> error + config" where
  "load_config update_configs file =
     (case (case file of
              Some config \<Rightarrow> Inr config
            | None \<Rightarrow> (case save_config update_configs default_config of
                         Inl e \<Rightarrow> Inl e
                       | Inr u \<Rightarrow> Inr default_config)) of
        Inl e \<Rightarrow> Inl e
      | Inr config \<Rightarrow>
          (case then_do (validate_config config) (update_configs config) of
             Inl e \<Rightarrow> Inl e
           | Inr u \<Rightarrow> Inr config))"

text \<open>
  \<open>main\<close>: its first statements load the configuration, and \<open>rest\<close> is everything after
  them, the fetch included. When \<open>load_config\<close> raises, the handler of \<open>main\<close> reads
  \<open>notifier_config\<close> and the \<open>finally\<close> clause reads \<open>parser\<close>, two local variables not yet
  assigned: \<open>main\<close> ends with the \<open>UnboundLocalError\<close> of the second.
\<close>

definition main ::
  "(config \<Rightarrow> error + unit) \<Rightarrow> config option \<Rightarrow> (config \<Rightarrow> error + 'a) \<Rightarrow> error + 'a" where
  "main update_configs file rest =
     (case load_config update_configs file of
        Inl e \<Rightarrow> Inl (UnboundLocalError ''parser'')
      | Inr config \<Rightarrow> rest config)"

text \<open>
  The constraints in words. A field holds a positive integer; a field holds a number
  between 0 and 1; the notifier is disabled, or has a token and a chat identifier; the
  level is one of the five names. A section that is not a dictionary has no field.
\<close>

definition field :: "pyval \<Rightarrow> string \<Rightarrow> pyval option" where
  "field d key = (case d of PyDict items \<Rightarrow> Some (case map_of items key of Some v \<Rightarrow> v | None \<Rightarrow> PyNone)
                  | _ \<Rightarrow> None)"

definition section_of :: "config \<Rightarrow> string \<Rightarrow> pyval" where
  "section_of config name = (case map_of config name of Some v \<Rightarrow> v | None \<Rightarrow> PyNone)"

definition positive_int_field :: "pyval \<Rightarrow> string \<Rightarrow> bool" where
  "positive_int_field d key =
     (case field d key of Some v \<Rightarrow> isinstance_int v \<and> 1 \<le> number_value v | None \<Rightarrow> False)"

definition unit_interval_field :: "pyval \<Rightarrow> string \<Rightarrow> bool" where
  "unit_interval_field d key =
     (case field d key of
        Some v \<Rightarrow> isinstance_number v \<and> 0 \<le> number_value v \<and> number_value v \<le> 1
      | None \<Rightarrow> False)"

definition truthy_field :: "pyval \<Rightarrow> string \<Rightarrow> bool" where
  "truthy_field d key = (case field d key of Some v \<Rightarrow> truthy v | None \<Rightarrow> False)"

definition is_dict :: "pyval \<Rightarrow> bool" where
  "is_dict d = (case d of PyDict items \<Rightarrow> True | _ \<Rightarrow> False)"

definition notifier_ok :: "pyval \<Rightarrow> bool" where
  "notifier_ok notifier =
     (is_dict notifier \<and>
      (if truthy_field notifier ''enabled''
       then truthy_field notifier ''telegram_token'' \<and> truthy_field notifier ''chat_id''
       else True))"

definition level_ok :: "pyval \<Rightarrow> bool" where
  "level_ok logging_config =
     (case field logging_config ''level'' of Some v \<Rightarrow> v \<in> set valid_levels | None \<Rightarrow> False)"

definition config_ok :: "config \<Rightarrow> bool" where
  "config_ok config =
     (list_all (\<lambda>section. map_of config section \<noteq> None) required_sections \<and>
      positive_int_field (section_of config ''parser'') ''max_retries'' \<and>
      positive_int_field (section_of config ''parser'') ''timeout'' \<and>
      unit_interval_field (section_of config ''analyzer'') ''min_confidence'' \<and>
      notifier_ok (section_of config ''notifier'') \<and>
      positive_int_field (section_of config ''cache'') ''max_size'' \<and>
      level_ok (section_of config ''logging''))"

text \<open>
  The violations as the specification lists them, read on the numbers of the file:
  a missing section, \<open>max_retries < 1\<close>, \<open>timeout < 1\<close>, \<open>min_confidence\<close> outside
  \<open>[0, 1]\<close>, \<open>max_size < 1\<close>, a level that is none of the five names, the notifier
  enabled with an empty token or an empty chat identifier.
\<close>

definition number_below_one :: "pyval \<Rightarrow> string \<Rightarrow> bool" where
  "number_below_one d key =
     (case field d key of Some v \<Rightarrow> isinstance_number v \<and> number_value v < 1 | None \<Rightarrow> False)"

definition number_outside_unit :: "pyval \<Rightarrow> string \<Rightarrow> bool" where
  "number_outside_unit d key =
     (case field d key of
        Some v \<Rightarrow> isinstance_number v \<and> (number_value v < 0 \<or> 1 < number_value v)
      | None \<Rightarrow> False)"

definition spec_violation :: "config \<Rightarrow> bool" where
  "spec_violation config =
     (list_ex (\<lambda>section. map_of config section = None) required_sections \<or>
      number_below_one (section_of config ''parser'') ''max_retries'' \<or>
      number_below_one (section_of config ''parser'') ''timeout'' \<or>
      number_outside_unit (section_of config ''analyzer'') ''min_confidence'' \<or>
      number_below_one (section_of config ''cache'') ''max_size'' \<or>
      \<not> level_ok (section_of config ''logging'') \<or>
      (truthy_field (section_of config ''notifier'') ''enabled'' \<and>
       (\<not> truthy_field (section_of config ''notifier'') ''telegram_token'' \<or>
        \<not> truthy_field (section_of config ''notifier'') ''chat_id'')))"

section \<open>Derived notions and example inputs\<close>

text \<open>What \<open>analyze_sentiment\<close> yields for a review, and the entry appended with it.\<close>

definition analysis :: "SentimentAnalyzer \<Rightarrow> review \<Rightarrow> real \<times> string" where
  "analysis analyzer review =
     (case analyze_sentiment analyzer (PyStr (r_text review)) of
        Inr result \<Rightarrow> result
      | Inl e \<Rightarrow> (0, ''unknown''))"

definition analyzed_entry :: "SentimentAnalyzer \<Rightarrow> SecurityManager \<Rightarrow> review \<Rightarrow> cache_entry" where
  "analyzed_entry analyzer security_manager review =
     new_entry review (sha256_hexdigest security_manager (r_text review))
       (fst (analysis analyzer review)) (snd (analysis analyzer review))"

text \<open>Three reviews; the second differs from the first by one more space.\<close>

definition great_review :: review where
  "great_review =
     \<lparr>r_text = str_of ''Great service!'', r_rating = 5, r_author = str_of ''Test User'',
      r_date = str_of ''2024-01-01''\<rparr>"

definition spaced_review :: review where
  "spaced_review =
     \<lparr>r_text = str_of ''Great  service!'', r_rating = 5, r_author = str_of ''Test User'',
      r_date = str_of ''2024-01-01''\<rparr>"

definition russian_review :: review where
  "russian_review =
     \<lparr>r_text = str_of ''Uzhasno'', r_rating = 1, r_author = str_of ''Anonymous'',
      r_date = str_of ''2024-01-02''\<rparr>"

text \<open>
  An analyzer whose translator is out of reach: every translation raises. English is
  detected for the first review's text, Russian otherwise.
\<close>

definition offline_analyzer :: SentimentAnalyzer where
  "offline_analyzer =
     \<lparr>target_language = ''en'', max_workers = 4,
      detect = (\<lambda>s. if s = str_of ''Great service!'' then Inr ''en'' else Inr ''ru''),
      translate = (\<lambda>s lang. Inl (TranslationError ''Failed to translate text'')),
      polarity = (\<lambda>s. if s = str_of ''Great service!'' then Inr (3 / 4) else Inr 0),
      isalnum = (\<lambda>c. False), isspace = (\<lambda>c. False)\<rparr>"

text \<open>
  An analyzer whose language detection raises on every text, while translation returns
  the text as it is and the polarity is one half.
\<close>

definition undetecting_analyzer :: SentimentAnalyzer where
  "undetecting_analyzer =
     \<lparr>target_language = ''en'', max_workers = 4,
      detect = (\<lambda>s. Inl LangDetectException),
      translate = (\<lambda>s lang. Inr s),
      polarity = (\<lambda>s. Inr (1 / 2)),
      isalnum = (\<lambda>c. False), isspace = (\<lambda>c. False)\<rparr>"

text \<open>The security manager of tests/main.test.py, whose digest of \<open>x\<close> is \<open>hashed_x\<close>.\<close>

definition test_security_manager :: SecurityManager where
  "test_security_manager =
     \<lparr>key_file = ''.security_key'', fernet = ''key'',
      sha256_hexdigest = (\<lambda>s. str_of ''hashed_'' @ s)\<rparr>"

text \<open>Parsers: one whose first load returns the given reviews, and three that fail.\<close>

definition parser_of :: "review list \<Rightarrow> ReviewParser" where
  "parser_of reviews = \<lparr>max_retries = 3, load_reviews = (\<lambda>n. Inr reviews)\<rparr>"

definition parser_down :: ReviewParser where
  "parser_down =
     \<lparr>max_retries = 3,
      load_reviews = (\<lambda>n. Inl (NetworkError ''Timeout while loading reviews''))\<rparr>"

definition parser_recovers :: ReviewParser where
  "parser_recovers =
     \<lparr>max_retries = 3,
      load_reviews = (\<lambda>n. if n < 2 then Inl (NetworkError ''Timeout while loading reviews'')
                           else Inr [great_review])\<rparr>"

definition parser_broken :: ReviewParser where
  "parser_broken =
     \<lparr>max_retries = 3,
      load_reviews = (\<lambda>n. if n < 1 then Inl (NetworkError ''Timeout while loading reviews'')
                           else Inl (ParsingError ''Error parsing reviews''))\<rparr>"

text \<open>A cache of one entry, kept from an earlier run.\<close>

definition prior_cache :: "cache_entry list" where
  "prior_cache =
     [\<lparr>c_text = str_of ''Not bad'', c_hash = str_of ''hashed_Not bad'', c_sentiment = 1,
       c_language = ''en'', c_rating = 4, c_author = str_of ''Test User'',
       c_date = str_of ''2023-12-31''\<rparr>]"

text \<open>
  Configurations: the default one with \<open>value\<close> stored under \<open>key\<close> of a section, the
  default one with the notifier disabled, and the latter with \<open>max_retries\<close> set to the
  float 2.5.
\<close>

definition set_field :: "config \<Rightarrow> string \<Rightarrow> string \<Rightarrow> pyval \<Rightarrow> config" where
  "set_field config name key v =
     map (\<lambda>(section, d). if section = name
            then (section, case d of PyDict items \<Rightarrow> PyDict (map (\<lambda>(k, old). if k = key then (k, v) else (k, old)) items)
                                  | _ \<Rightarrow> d)
            else (section, d))
       config"

definition quiet_config :: config where
  "quiet_config = set_field default_config ''notifier'' ''enabled'' (PyBool False)"

definition float_retries_config :: config where
  "float_retries_config = set_field quiet_config ''parser'' ''max_retries'' (PyFloat (5 / 2))"

text \<open>The results of a batch analysis, were the futures to complete as submitted.\<close>

definition batch_results :: "SentimentAnalyzer \<Rightarrow> pyobject list \<Rightarrow> (real \<times> string) list" where
  "batch_results self texts =
     map (\<lambda>obj. case analyze_sentiment_of self obj of
                   Inr result \<Rightarrow> result
                 | Inl e \<Rightarrow> (0, ''unknown''))
       texts"

text \<open>
  An analyzer whose polarity raises on every text; the translator answers with a fixed
  English text.
\<close>

definition unscoring_analyzer :: SentimentAnalyzer where
  "unscoring_analyzer =
     \<lparr>target_language = ''en'', max_workers = 4,
      detect = (\<lambda>s. if s = str_of ''Great service!'' then Inr ''en'' else Inr ''ru''),
      translate = (\<lambda>s lang. Inr (str_of ''Terrible'')),
      polarity = (\<lambda>s. Inl (OtherException ''polarity'')),
      isalnum = (\<lambda>c. False), isspace = (\<lambda>c. False)\<rparr>"

text \<open>An analyzer with a thread pool of no worker.\<close>

definition poolless_analyzer :: SentimentAnalyzer where
  "poolless_analyzer = offline_analyzer\<lparr>max_workers := 0\<rparr>"


text \<open>A review in English, and a review whose text ends in a lone surrogate.\<close>

definition plain_review :: review where
  "plain_review =
     \<lparr>r_text = str_of ''Not bad'', r_rating = 4, r_author = str_of ''Test User'',
      r_date = str_of ''2024-01-03''\<rparr>"

definition surrogate_review :: review where
  "surrogate_review =
     \<lparr>r_text = str_of ''Nice'' @ [55357], r_rating = 5, r_author = str_of ''Test User'',
      r_date = str_of ''2024-01-04''\<rparr>"



text \<open>An object whose truth test raises, as that of an array of several elements does.\<close>

definition ambiguous_object :: pyobject where
  "ambiguous_object = Other (Inl (OtherException ''The truth value is ambiguous''))"

text \<open>The exceptions of \<open>_validate_config\<close>: its own \<open>ValueError\<close>, or \<open>AttributeError\<close>.\<close>

definition config_error :: "error \<Rightarrow> bool" where
  "config_error e = (case e of ValueError c \<Rightarrow> True | AttributeError a \<Rightarrow> True | _ \<Rightarrow> False)"

section \<open>The retry bound\<close>

lemma network_failures_first:
  "i < j \<Longrightarrow> network_failures self i j =
     ((\<exists>m. load_reviews self i = Inl (NetworkError m)) \<and> network_failures self (Suc i) j)"
  by (auto simp: network_failures_def upt_conv_Cons split: sum.splits error.splits)

lemma network_failures_last:
  "network_failures self i (Suc j) \<Longrightarrow> i \<le> j \<Longrightarrow> \<exists>m. load_reviews self j = Inl (NetworkError m)"
  by (auto simp: network_failures_def split: sum.splits error.splits)

lemma network_failures_butlast:
  "network_failures self i (Suc j) \<Longrightarrow> i \<le> j \<Longrightarrow> network_failures self i j"
  by (auto simp: network_failures_def)

text \<open>
  The loop invariant: entered at \<open>attempt\<close> with as many loads made, after network
  failures up to \<open>j\<close> the loop ends at \<open>j\<close> with the outcome of that load.
\<close>

lemma parse_reviews_from_halt:
  "d = j - attempt \<Longrightarrow> attempt \<le> j \<Longrightarrow> int j < max_retries self \<Longrightarrow> loads tr = attempt \<Longrightarrow>
   network_failures self attempt j \<Longrightarrow> halts_at self j \<Longrightarrow>
   parse_reviews_from self attempt tr =
     (case load_reviews self j of Inr L \<Rightarrow> Inr (Some L) | Inl e \<Rightarrow> Inl e,
      retry_trace tr attempt j)"
proof (induction d arbitrary: attempt tr)
  case 0
  then have [simp]: "attempt = j" by simp
  from 0 show ?case
    by (subst parse_reviews_from.simps)
       (auto simp: halts_at_def retry_trace_def split: sum.splits error.splits)
next
  case (Suc d)
  then have lt: "attempt < j" by simp
  with Suc.prems obtain m where m: "load_reviews self attempt = Inl (NetworkError m)"
    and rest: "network_failures self (Suc attempt) j"
    by (auto simp: network_failures_first)
  let ?tr = "tr\<lparr>loads := loads tr + 1, sleeps := sleeps tr @ [2 ^ attempt],
                 cleanups := cleanups tr + 1\<rparr>"
  have "parse_reviews_from self (Suc attempt) ?tr =
     (case load_reviews self j of Inr L \<Rightarrow> Inr (Some L) | Inl e \<Rightarrow> Inl e,
      retry_trace ?tr (Suc attempt) j)"
    using Suc.prems lt rest by (intro Suc.IH) auto
  moreover have "retry_trace ?tr (Suc attempt) j = retry_trace tr attempt j"
    using lt Suc.prems by (simp add: retry_trace_def upt_conv_Cons)
  moreover have "parse_reviews_from self attempt tr = parse_reviews_from self (Suc attempt) ?tr"
    using lt Suc.prems m by (subst parse_reviews_from.simps) auto
  ultimately show ?case by simp
qed

lemma parse_reviews_halt:
  assumes "int j < max_retries self" and "network_failures self 0 j" and "halts_at self j"
  shows "parse_reviews self =
     (case load_reviews self j of Inr L \<Rightarrow> Inr (Some L) | Inl e \<Rightarrow> Inl e,
      \<lparr>loads = j + 1, sleeps = map (\<lambda>a. 2 ^ a) [0..<j], cleanups = j\<rparr>)"
  using parse_reviews_from_halt [of j j 0 self "\<lparr>loads = 0, sleeps = [], cleanups = 0\<rparr>"] assms
  by (simp add: parse_reviews_def retry_trace_def)

text \<open>
  Claim C4 (retry bound). With \<open>max_retries = k\<close> and \<open>k \<ge> 1\<close>: when the load raises
  \<open>NetworkError\<close> on \<open>k\<close> consecutive attempts, \<open>parse_reviews\<close> raises the
  \<open>NetworkError\<close> of the last attempt after exactly \<open>k\<close> loads; when the first \<open>k - 1\<close>
  attempts raise \<open>NetworkError\<close> and attempt \<open>k\<close> returns \<open>L\<close>, it returns \<open>L\<close> after
  \<open>k\<close> loads, with no further attempt; a \<open>ParsingError\<close> on an attempt, after network
  failures only, is raised at once, that load being the last.
\<close>

theorem parse_reviews_retry_bound:
  assumes "max_retries self = int k" and "1 \<le> k"
  shows "(network_failures self 0 k \<longrightarrow>
            (\<exists>m. load_reviews self (k - 1) = Inl (NetworkError m) \<and>
                 fst (parse_reviews self) = Inl (NetworkError m)) \<and>
            loads (snd (parse_reviews self)) = k) \<and>
         (network_failures self 0 (k - 1) \<and> load_reviews self (k - 1) = Inr L \<longrightarrow>
            fst (parse_reviews self) = Inr (Some L) \<and> loads (snd (parse_reviews self)) = k) \<and>
         (j < k \<and> network_failures self 0 j \<and> load_reviews self j = Inl (ParsingError m) \<longrightarrow>
            fst (parse_reviews self) = Inl (ParsingError m) \<and>
            loads (snd (parse_reviews self)) = j + 1)"
proof (intro conjI impI)
  from assms obtain k' where k: "k = Suc k'" by (cases k) auto
  have last: "int k' < max_retries self" "int k' = max_retries self - 1"
    using assms k by auto
  {
    assume all: "network_failures self 0 k"
    then obtain m where m: "load_reviews self k' = Inl (NetworkError m)"
      using network_failures_last [of self 0 k'] k by auto
    have "parse_reviews self =
       (case load_reviews self k' of Inr L \<Rightarrow> Inr (Some L) | Inl e \<Rightarrow> Inl e,
        \<lparr>loads = k' + 1, sleeps = map (\<lambda>a. 2 ^ a) [0..<k'], cleanups = k'\<rparr>)"
      using all k last network_failures_butlast [of self 0 k']
      by (intro parse_reviews_halt) (auto simp: halts_at_def)
    with m k show "\<exists>m. load_reviews self (k - 1) = Inl (NetworkError m) \<and>
        fst (parse_reviews self) = Inl (NetworkError m)"
      and "loads (snd (parse_reviews self)) = k" by auto
  }
  {
    assume ok: "network_failures self 0 (k - 1) \<and> load_reviews self (k - 1) = Inr L"
    have "parse_reviews self =
       (case load_reviews self k' of Inr L \<Rightarrow> Inr (Some L) | Inl e \<Rightarrow> Inl e,
        \<lparr>loads = k' + 1, sleeps = map (\<lambda>a. 2 ^ a) [0..<k'], cleanups = k'\<rparr>)"
      using ok k last by (intro parse_reviews_halt) (auto simp: halts_at_def)
    with ok k show "fst (parse_reviews self) = Inr (Some L)"
      and "loads (snd (parse_reviews self)) = k" by auto
  }
  {
    assume bad: "j < k \<and> network_failures self 0 j \<and> load_reviews self j = Inl (ParsingError m)"
    have "parse_reviews self =
       (case load_reviews self j of Inr L \<Rightarrow> Inr (Some L) | Inl e \<Rightarrow> Inl e,
        \<lparr>loads = j + 1, sleeps = map (\<lambda>a. 2 ^ a) [0..<j], cleanups = j\<rparr>)"
      using bad assms by (intro parse_reviews_halt) (auto simp: halts_at_def)
    with bad show "fst (parse_reviews self) = Inl (ParsingError m)"
      and "loads (snd (parse_reviews self)) = j + 1" by auto
  }
qed

lemma network_failures_parser_down: "network_failures parser_down 0 3"
  by (simp add: network_failures_def parser_down_def upt_rec)

lemma network_failures_parser_recovers: "network_failures parser_recovers 0 2"
  by (simp add: network_failures_def parser_recovers_def upt_rec)

lemma network_failures_parser_broken: "network_failures parser_broken 0 1"
  by (simp add: network_failures_def parser_broken_def upt_rec)

theorem parse_reviews_retry_bound_witness:
  "(max_retries parser_down = 3 \<and> network_failures parser_down 0 3 \<and>
    fst (parse_reviews parser_down) = Inl (NetworkError ''Timeout while loading reviews'') \<and>
    loads (snd (parse_reviews parser_down)) = 3) \<and>
   (max_retries parser_recovers = 3 \<and> network_failures parser_recovers 0 2 \<and>
    load_reviews parser_recovers 2 = Inr [great_review] \<and>
    fst (parse_reviews parser_recovers) = Inr (Some [great_review]) \<and>
    loads (snd (parse_reviews parser_recovers)) = 3) \<and>
   (max_retries parser_broken = 3 \<and> network_failures parser_broken 0 1 \<and>
    load_reviews parser_broken 1 = Inl (ParsingError ''Error parsing reviews'') \<and>
    fst (parse_reviews parser_broken) = Inl (ParsingError ''Error parsing reviews'') \<and>
    loads (snd (parse_reviews parser_broken)) = 2)"
proof -
  have a: "max_retries parser_down = int 3" "max_retries parser_recovers = int 3"
    "max_retries parser_broken = int 3"
    by (simp_all add: parser_down_def parser_recovers_def parser_broken_def)
  have b: "(1::nat) \<le> 3" by simp
  have l: "load_reviews parser_down 2 = Inl (NetworkError ''Timeout while loading reviews'')"
    "load_reviews parser_recovers 2 = Inr [great_review]"
    "load_reviews parser_broken 1 = Inl (ParsingError ''Error parsing reviews'')"
    by (simp_all add: parser_down_def parser_recovers_def parser_broken_def)
  show ?thesis
    using parse_reviews_retry_bound [OF a(1) b, of "[]" 0 "''''"]
      parse_reviews_retry_bound [OF a(2) b, of "[great_review]" 0 "''''"]
      parse_reviews_retry_bound [OF a(3) b, of "[]" 1 "''Error parsing reviews''"]
      network_failures_parser_down network_failures_parser_recovers
      network_failures_parser_broken l a
    by simp
qed

section \<open>The analysis of one text and of a batch\<close>

lemmas analyzer_defs =
  analyze_sentiment_def analyze_sentiment_try_def detect_language_def get_sentiment_def
  preprocess_text_def replace_special_def kept_char_def word_char_def space_char_def strip_def

lemmas example_defs =
  str_of_def great_review_def spaced_review_def russian_review_def offline_analyzer_def
  test_security_manager_def

text \<open>\<open>analyze_sentiment\<close> in one equation, for every argument.\<close>

lemma analyze_sentiment_eq:
  "analyze_sentiment self v =
     Inr (if preprocess_text self v = [] then (0, ''unknown'')
          else if detect_language self (PyStr (preprocess_text self v)) \<noteq> target_language self
          then (case translate self (preprocess_text self v) (target_language self) of
                  Inl e \<Rightarrow> (0, detect_language self (PyStr (preprocess_text self v)))
                | Inr translated \<Rightarrow>
                    (get_sentiment self (PyStr translated),
                     detect_language self (PyStr (preprocess_text self v))))
          else (get_sentiment self (PyStr (preprocess_text self v)),
                detect_language self (PyStr (preprocess_text self v))))"
  by (auto simp: analyze_sentiment_def analyze_sentiment_try_def Let_def preprocess_text_def
      split: sum.splits)

lemma detect_language_empty: "detect_language self (PyStr []) = ''unknown''"
  by (simp add: detect_language_def)

lemmas more_example_defs = undetecting_analyzer_def unscoring_analyzer_def

text \<open>
  Claim C7 (translation failure fallback). For every text whose detected language
  differs from the target language, when the call of the translator raises,
  \<open>analyze_sentiment\<close> returns exactly \<open>(0.0, detected language)\<close>: it scores nothing and
  raises nothing. The language is detected on the preprocessed text.
\<close>

theorem translation_failure_fallback:
  assumes "detect_language self (PyStr (preprocess_text self v)) \<noteq> target_language self"
    and "translate self (preprocess_text self v) (target_language self) = Inl e"
  shows "analyze_sentiment self v =
     Inr (0, detect_language self (PyStr (preprocess_text self v)))"
  using assms by (simp add: analyze_sentiment_eq detect_language_empty)

theorem translation_failure_fallback_witness:
  "detect_language offline_analyzer
     (PyStr (preprocess_text offline_analyzer (PyStr (str_of ''Uzhasno'')))) = ''ru'' \<and>
   ''ru'' \<noteq> target_language offline_analyzer \<and>
   translate offline_analyzer (preprocess_text offline_analyzer (PyStr (str_of ''Uzhasno'')))
     (target_language offline_analyzer) = Inl (TranslationError ''Failed to translate text'') \<and>
   analyze_sentiment offline_analyzer (PyStr (str_of ''Uzhasno'')) = Inr (0, ''ru'')"
proof -
  have d: "detect_language offline_analyzer
      (PyStr (preprocess_text offline_analyzer (PyStr (str_of ''Uzhasno'')))) = ''ru''"
    by (simp add: analyzer_defs example_defs)
  have t: "translate offline_analyzer
      (preprocess_text offline_analyzer (PyStr (str_of ''Uzhasno'')))
      (target_language offline_analyzer) = Inl (TranslationError ''Failed to translate text'')"
    by (simp add: offline_analyzer_def)
  have n: "detect_language offline_analyzer
      (PyStr (preprocess_text offline_analyzer (PyStr (str_of ''Uzhasno'')))) \<noteq>
      target_language offline_analyzer"
    by (simp add: d) (simp add: offline_analyzer_def)
  from translation_failure_fallback [OF n t] d t show ?thesis
    by (simp add: offline_analyzer_def)
qed

text \<open>
  Claim C6 (totality and boundary) fails twice. The call raises when the truth test of
  its argument raises, since the guard stands before the \<open>try\<close>. And an internal failure
  does not always give \<open>(0.0, 'unknown')\<close>: when the translation raises, the language
  returned is the detected one; when the detection raises, the text is translated and
  scored, and the sentiment returned is the score.
\<close>

theorem analyze_failure_counterexample:
  "analyze_sentiment_of offline_analyzer ambiguous_object =
     Inl (OtherException ''The truth value is ambiguous'') \<and>
   translate offline_analyzer (str_of ''Otlichno'') ''en'' =
     Inl (TranslationError ''Failed to translate text'') \<and>
   analyze_sentiment_of offline_analyzer (Plain (PyStr (str_of ''Otlichno''))) = Inr (0, ''ru'') \<and>
   detect undetecting_analyzer (str_of ''12345'') = Inl LangDetectException \<and>
   analyze_sentiment_of undetecting_analyzer (Plain (PyStr (str_of ''12345''))) =
     Inr (1 / 2, ''unknown'') \<and>
   analyze_sentiment_of offline_analyzer (Plain (PyStr (str_of ''Otlichno''))) \<noteq>
     Inr (0, ''unknown'') \<and>
   analyze_sentiment_of undetecting_analyzer (Plain (PyStr (str_of ''12345''))) \<noteq>
     Inr (0, ''unknown'')"
  by (simp add: analyze_sentiment_of_def ambiguous_object_def analyzer_defs example_defs
      more_example_defs)

text \<open>
  Claim C6 as amended. \<open>analyze_sentiment\<close> raises exactly when the truth test of its
  argument raises, and then raises that exception; on every other argument it returns.
  For an object of another class, the empty string, \<open>None\<close>, any argument that is not a
  string, and any text that preprocessing empties, it returns exactly
  \<open>(0.0, 'unknown')\<close>. For any other text the language returned is the one detected on
  the preprocessed text, the name the detector returns or \<open>'unknown'\<close> when the detector
  raises, and the sentiment is the polarity of the preprocessed text when that language
  is the target language, the polarity of its translation otherwise, and 0.0 when the
  translation raises, when the translation is empty, or when the scoring raises.
\<close>

theorem analyze_sentiment_total:
  "analyze_sentiment_of self (Other (Inl e0)) = Inl e0 \<and>
   analyze_sentiment_of self (Other (Inr b)) = Inr (0, ''unknown'') \<and>
   analyze_sentiment_of self (Plain v) = analyze_sentiment self v \<and>
   (\<exists>sentiment. analyze_sentiment self v =
       Inr (sentiment, detect_language self (PyStr (preprocess_text self v)))) \<and>
   (\<not> truthy v \<or> \<not> isinstance_str v \<or> preprocess_text self v = [] \<longrightarrow>
      analyze_sentiment self v = Inr (0, ''unknown'')) \<and>
   (detect self (preprocess_text self v) = Inl e \<longrightarrow>
      detect_language self (PyStr (preprocess_text self v)) = ''unknown'') \<and>
   (preprocess_text self v \<noteq> [] \<and> detect self (preprocess_text self v) = Inr lang \<longrightarrow>
      detect_language self (PyStr (preprocess_text self v)) = lang) \<and>
   (detect_language self (PyStr (preprocess_text self v)) \<noteq> target_language self \<and>
    translate self (preprocess_text self v) (target_language self) = Inl e' \<longrightarrow>
      analyze_sentiment self v =
        Inr (0, detect_language self (PyStr (preprocess_text self v)))) \<and>
   (detect_language self (PyStr (preprocess_text self v)) \<noteq> target_language self \<and>
    translate self (preprocess_text self v) (target_language self) = Inr translated \<and>
    (translated = [] \<or> polarity self translated = Inl e'') \<longrightarrow>
      analyze_sentiment self v =
        Inr (0, detect_language self (PyStr (preprocess_text self v)))) \<and>
   (preprocess_text self v \<noteq> [] \<and>
    detect_language self (PyStr (preprocess_text self v)) \<noteq> target_language self \<and>
    translate self (preprocess_text self v) (target_language self) = Inr translated \<and>
    translated \<noteq> [] \<and> polarity self translated = Inr score \<longrightarrow>
      analyze_sentiment self v =
        Inr (score, detect_language self (PyStr (preprocess_text self v)))) \<and>
   (detect_language self (PyStr (preprocess_text self v)) = target_language self \<and>
    polarity self (preprocess_text self v) = Inl e'' \<longrightarrow>
      analyze_sentiment self v =
        Inr (0, detect_language self (PyStr (preprocess_text self v)))) \<and>
   (preprocess_text self v \<noteq> [] \<and>
    detect_language self (PyStr (preprocess_text self v)) = target_language self \<and>
    polarity self (preprocess_text self v) = Inr score \<longrightarrow>
      analyze_sentiment self v =
        Inr (score, detect_language self (PyStr (preprocess_text self v))))"
proof -
  let ?p = "preprocess_text self v"
  let ?d = "detect_language self (PyStr ?p)"
  have objects: "analyze_sentiment_of self (Other (Inl e0)) = Inl e0"
    "analyze_sentiment_of self (Other (Inr b)) = Inr (0, ''unknown'')"
    "analyze_sentiment_of self (Plain v) = analyze_sentiment self v"
    by (simp_all add: analyze_sentiment_of_def)
  have returns: "\<exists>sentiment. analyze_sentiment self v = Inr (sentiment, ?d)"
    by (simp add: analyze_sentiment_eq detect_language_empty split: sum.splits)
  have boundary: "analyze_sentiment self v = Inr (0, ''unknown'')"
    if "\<not> truthy v \<or> \<not> isinstance_str v \<or> ?p = []"
    using that by (auto simp: analyze_sentiment_eq preprocess_text_def)
  have undetected: "?d = ''unknown''" if "detect self ?p = Inl e"
    using that by (simp add: detect_language_def split: error.splits)
  have detected: "?d = lang" if "?p \<noteq> [] \<and> detect self ?p = Inr lang"
    using that by (simp add: detect_language_def)
  have untranslated: "analyze_sentiment self v = Inr (0, ?d)"
    if "?d \<noteq> target_language self \<and> translate self ?p (target_language self) = Inl e'"
    using that by (simp add: analyze_sentiment_eq detect_language_empty)
  have unscored_translation: "analyze_sentiment self v = Inr (0, ?d)"
    if "?d \<noteq> target_language self \<and>
        translate self ?p (target_language self) = Inr translated \<and>
        (translated = [] \<or> polarity self translated = Inl e'')"
    using that by (auto simp: analyze_sentiment_eq detect_language_empty get_sentiment_def)
  have scored_translation: "analyze_sentiment self v = Inr (score, ?d)"
    if "?p \<noteq> [] \<and> ?d \<noteq> target_language self \<and>
        translate self ?p (target_language self) = Inr translated \<and>
        translated \<noteq> [] \<and> polarity self translated = Inr score"
    using that by (simp add: analyze_sentiment_eq get_sentiment_def)
  have unscored: "analyze_sentiment self v = Inr (0, ?d)"
    if "?d = target_language self \<and> polarity self ?p = Inl e''"
  proof (cases "?p = []")
    case True
    then show ?thesis by (simp add: analyze_sentiment_eq detect_language_empty)
  next
    case False
    with that show ?thesis by (simp add: analyze_sentiment_eq get_sentiment_def)
  qed
  have scored: "analyze_sentiment self v = Inr (score, ?d)"
    if "?p \<noteq> [] \<and> ?d = target_language self \<and> polarity self ?p = Inr score"
    using that by (simp add: analyze_sentiment_eq get_sentiment_def)
  from objects returns boundary undetected detected untranslated unscored_translation
    scored_translation unscored scored
  show ?thesis by blast
qed

theorem analyze_sentiment_total_witness:
  "analyze_sentiment_of offline_analyzer (Other (Inl (OtherException ''ambiguous''))) =
     Inl (OtherException ''ambiguous'') \<and>
   analyze_sentiment_of offline_analyzer (Other (Inr True)) = Inr (0, ''unknown'') \<and>
   analyze_sentiment offline_analyzer PyNone = Inr (0, ''unknown'') \<and>
   analyze_sentiment offline_analyzer (PyStr []) = Inr (0, ''unknown'') \<and>
   analyze_sentiment offline_analyzer (PyInt 123) = Inr (0, ''unknown'') \<and>
   (detect undetecting_analyzer (str_of ''12345'') = Inl LangDetectException \<and>
    translate undetecting_analyzer (str_of ''12345'') ''en'' = Inr (str_of ''12345'') \<and>
    polarity undetecting_analyzer (str_of ''12345'') = Inr (1 / 2) \<and>
    analyze_sentiment undetecting_analyzer (PyStr (str_of ''12345'')) =
      Inr (1 / 2, ''unknown'')) \<and>
   (translate offline_analyzer (str_of ''Otlichno'') ''en'' =
      Inl (TranslationError ''Failed to translate text'') \<and>
    analyze_sentiment offline_analyzer (PyStr (str_of ''Otlichno'')) = Inr (0, ''ru'')) \<and>
   (translate unscoring_analyzer (str_of ''Uzhasno'') ''en'' = Inr (str_of ''Terrible'') \<and>
    polarity unscoring_analyzer (str_of ''Terrible'') = Inl (OtherException ''polarity'') \<and>
    analyze_sentiment unscoring_analyzer (PyStr (str_of ''Uzhasno'')) = Inr (0, ''ru'')) \<and>
   (polarity unscoring_analyzer (str_of ''Great service!'') = Inl (OtherException ''polarity'') \<and>
    analyze_sentiment unscoring_analyzer (PyStr (str_of ''Great service!'')) = Inr (0, ''en'')) \<and>
   (detect offline_analyzer (str_of ''Great service!'') = Inr ''en'' \<and>
    polarity offline_analyzer (str_of ''Great service!'') = Inr (3 / 4) \<and>
    analyze_sentiment offline_analyzer (PyStr (str_of ''Great service!'')) =
      Inr (3 / 4, ''en''))"
proof -
  note defs = analyzer_defs example_defs more_example_defs
  have pre: "preprocess_text undetecting_analyzer (PyStr (str_of ''12345'')) = str_of ''12345''"
    "preprocess_text offline_analyzer (PyStr (str_of ''Otlichno'')) = str_of ''Otlichno''"
    "preprocess_text unscoring_analyzer (PyStr (str_of ''Uzhasno'')) = str_of ''Uzhasno''"
    "preprocess_text unscoring_analyzer (PyStr (str_of ''Great service!'')) =
       str_of ''Great service!''"
    "preprocess_text offline_analyzer (PyStr (str_of ''Great service!'')) =
       str_of ''Great service!''"
    by (simp_all add: defs)
  have nonempty: "str_of ''12345'' \<noteq> []" "str_of ''Otlichno'' \<noteq> []" "str_of ''Uzhasno'' \<noteq> []"
    "str_of ''Great service!'' \<noteq> []" "str_of ''Terrible'' \<noteq> []"
    by (simp_all add: str_of_def)
  have target: "target_language offline_analyzer = ''en''"
    "target_language unscoring_analyzer = ''en''" "target_language undetecting_analyzer = ''en''"
    by (simp_all add: defs)
  have ext: "detect undetecting_analyzer (str_of ''12345'') = Inl LangDetectException"
    "translate undetecting_analyzer (str_of ''12345'') ''en'' = Inr (str_of ''12345'')"
    "polarity undetecting_analyzer (str_of ''12345'') = Inr (1 / 2)"
    "translate offline_analyzer (str_of ''Otlichno'') ''en'' =
      Inl (TranslationError ''Failed to translate text'')"
    "translate unscoring_analyzer (str_of ''Uzhasno'') ''en'' = Inr (str_of ''Terrible'')"
    "polarity unscoring_analyzer (str_of ''Terrible'') = Inl (OtherException ''polarity'')"
    "polarity unscoring_analyzer (str_of ''Great service!'') = Inl (OtherException ''polarity'')"
    "detect offline_analyzer (str_of ''Great service!'') = Inr ''en''"
    "polarity offline_analyzer (str_of ''Great service!'') = Inr (3 / 4)"
    by (simp_all add: offline_analyzer_def unscoring_analyzer_def undetecting_analyzer_def)
  have det: "detect offline_analyzer (str_of ''Otlichno'') = Inr ''ru''"
    "detect unscoring_analyzer (str_of ''Uzhasno'') = Inr ''ru''"
    "detect unscoring_analyzer (str_of ''Great service!'') = Inr ''en''"
    by (simp_all add: offline_analyzer_def unscoring_analyzer_def str_of_def)
  have objects: "analyze_sentiment_of offline_analyzer (Other (Inl (OtherException ''ambiguous''))) =
      Inl (OtherException ''ambiguous'')"
    "analyze_sentiment_of offline_analyzer (Other (Inr True)) = Inr (0, ''unknown'')"
    using analyze_sentiment_total [where self = offline_analyzer and b = True
        and e0 = "OtherException ''ambiguous''"]
    by simp_all
  have none: "analyze_sentiment offline_analyzer PyNone = Inr (0, ''unknown'')"
    using analyze_sentiment_total [where self = offline_analyzer and v = PyNone] by simp
  have empty: "analyze_sentiment offline_analyzer (PyStr []) = Inr (0, ''unknown'')"
    using analyze_sentiment_total [where self = offline_analyzer and v = "PyStr []"] by simp
  have number: "analyze_sentiment offline_analyzer (PyInt 123) = Inr (0, ''unknown'')"
    using analyze_sentiment_total [where self = offline_analyzer and v = "PyInt 123"] by simp
  have undetected: "analyze_sentiment undetecting_analyzer (PyStr (str_of ''12345'')) =
      Inr (1 / 2, ''unknown'')"
    using analyze_sentiment_total [where self = undetecting_analyzer
        and v = "PyStr (str_of ''12345'')" and e = LangDetectException
        and translated = "str_of ''12345''" and score = "1 / 2"]
    by (simp add: pre nonempty target ext)
  have untranslated:
    "analyze_sentiment offline_analyzer (PyStr (str_of ''Otlichno'')) = Inr (0, ''ru'')"
    using analyze_sentiment_total [where self = offline_analyzer
        and v = "PyStr (str_of ''Otlichno'')" and lang = "''ru''"
        and e' = "TranslationError ''Failed to translate text''"]
    by (simp add: pre nonempty target ext det)
  have unscored_translation:
    "analyze_sentiment unscoring_analyzer (PyStr (str_of ''Uzhasno'')) = Inr (0, ''ru'')"
    using analyze_sentiment_total [where self = unscoring_analyzer
        and v = "PyStr (str_of ''Uzhasno'')" and lang = "''ru''"
        and translated = "str_of ''Terrible''" and e'' = "OtherException ''polarity''"]
    by (simp add: pre nonempty target ext det)
  have unscored:
    "analyze_sentiment unscoring_analyzer (PyStr (str_of ''Great service!'')) = Inr (0, ''en'')"
    using analyze_sentiment_total [where self = unscoring_analyzer
        and v = "PyStr (str_of ''Great service!'')" and lang = "''en''"
        and e'' = "OtherException ''polarity''"]
    by (simp add: pre nonempty target ext det)
  have scored:
    "analyze_sentiment offline_analyzer (PyStr (str_of ''Great service!'')) =
      Inr (3 / 4, ''en'')"
    using analyze_sentiment_total [where self = offline_analyzer
        and v = "PyStr (str_of ''Great service!'')" and lang = "''en''" and score = "3 / 4"]
    by (simp add: pre nonempty target ext)
  from objects none empty number undetected untranslated unscored_translation unscored scored ext
  show ?thesis by simp
qed

lemma batch_results_nth:
  "map (\<lambda>future. case analyze_sentiment_of self (texts ! future) of
                   Inr result \<Rightarrow> result
                 | Inl e \<Rightarrow> (0, ''unknown'')) [0..<length texts] =
   batch_results self texts"
  by (rule nth_equalityI) (simp_all add: batch_results_def)

text \<open>
  Claim C8 (batch completeness) fails for an analyzer built with \<open>max_workers = 0\<close>,
  which the constructor accepts: on a list of one text the thread pool raises and
  \<open>analyze_batch\<close> returns no result.
\<close>

theorem analyze_batch_counterexample:
  "max_workers poolless_analyzer = 0 \<and>
   analyze_batch poolless_analyzer [0] [Plain (PyStr (str_of ''Great service!''))] =
     Inl (OtherException ''max_workers must be greater than 0'')"
  by (simp add: analyze_batch_def poolless_analyzer_def offline_analyzer_def)

text \<open>
  Claim C8 as amended. For an analyzer whose \<open>max_workers\<close> is at least 1 and every
  list of \<open>n\<close> texts, \<open>analyze_batch\<close> returns a list of exactly \<open>n\<close> results, whatever
  the order in which the analyses complete and whichever of them fail: the results are
  those of the single analyses, \<open>(0.0, 'unknown')\<close> standing for an analysis that raised,
  each a pair of a number and a string, in the order of completion.
\<close>

theorem analyze_batch_complete:
  assumes "0 < max_workers self" and "completion_order completed texts"
  shows "\<exists>results. analyze_batch self completed texts = Inr results \<and>
           length results = length texts \<and>
           mset results = mset (batch_results self texts)"
proof -
  let ?f = "\<lambda>future. case analyze_sentiment_of self (texts ! future) of
                       Inr result \<Rightarrow> result
                     | Inl e \<Rightarrow> (0, ''unknown'')"
  have m: "mset completed = mset [0..<length texts]"
    using assms(2) by (simp add: completion_order_def)
  then have len: "length completed = length texts"
    by (metis length_upt mset_eq_length minus_nat.diff_0)
  have "mset (map ?f completed) = mset (map ?f [0..<length texts])"
    using m by (metis mset_map)
  then have ms: "mset (map ?f completed) = mset (batch_results self texts)"
    by (simp only: batch_results_nth)
  show ?thesis
  proof (cases "texts = []")
    case True
    then show ?thesis by (simp add: analyze_batch_def batch_results_def)
  next
    case False
    then have "analyze_batch self completed texts = Inr (map ?f completed)"
      using assms(1) by (simp add: analyze_batch_def)
    with len ms show ?thesis by simp
  qed
qed

theorem analyze_batch_complete_witness:
  "0 < max_workers offline_analyzer \<and>
   completion_order [2, 0, 1]
     [Plain (PyStr (str_of ''Great service!'')), ambiguous_object,
      Plain (PyStr (str_of ''Uzhasno''))] \<and>
   analyze_batch offline_analyzer [2, 0, 1]
     [Plain (PyStr (str_of ''Great service!'')), ambiguous_object,
      Plain (PyStr (str_of ''Uzhasno''))] =
     Inr [(0, ''ru''), (3 / 4, ''en''), (0, ''unknown'')] \<and>
   batch_results offline_analyzer
     [Plain (PyStr (str_of ''Great service!'')), ambiguous_object,
      Plain (PyStr (str_of ''Uzhasno''))] =
     [(3 / 4, ''en''), (0, ''unknown''), (0, ''ru'')]"
proof -
  have w: "0 < max_workers offline_analyzer" by (simp add: offline_analyzer_def)
  have c: "completion_order [2, 0, 1]
     [Plain (PyStr (str_of ''Great service!'')), ambiguous_object,
      Plain (PyStr (str_of ''Uzhasno''))]"
    by (simp add: completion_order_def upt_rec)
  have a: "analyze_batch offline_analyzer [2, 0, 1]
     [Plain (PyStr (str_of ''Great service!'')), ambiguous_object,
      Plain (PyStr (str_of ''Uzhasno''))] =
     Inr [(0, ''ru''), (3 / 4, ''en''), (0, ''unknown'')]"
    by (simp add: analyze_batch_def analyze_sentiment_of_def ambiguous_object_def
        analyzer_defs example_defs)
  have b: "batch_results offline_analyzer
     [Plain (PyStr (str_of ''Great service!'')), ambiguous_object,
      Plain (PyStr (str_of ''Uzhasno''))] =
     [(3 / 4, ''en''), (0, ''unknown''), (0, ''ru'')]"
    by (simp add: batch_results_def analyze_sentiment_of_def ambiguous_object_def
        analyzer_defs example_defs)
  from analyze_batch_complete [OF w c] w c a b show ?thesis by simp
qed

section \<open>The batch: fetch failure, deduplication, fingerprints\<close>

lemma analyze_sentiment_try_returns: "\<exists>result. analyze_sentiment_try self v = Inr result"
  by (simp add: analyze_sentiment_try_def Let_def split: sum.splits)

lemma analyze_sentiment_returns: "\<exists>result. analyze_sentiment self v = Inr result"
  using analyze_sentiment_try_returns [of self v]
  by (auto simp: analyze_sentiment_def)

lemma analyze_sentiment_analysis:
  "analyze_sentiment analyzer (PyStr (r_text review)) = Inr (analysis analyzer review)"
  using analyze_sentiment_returns [of analyzer "PyStr (r_text review)"]
  by (auto simp: analysis_def)

lemma hash_data_encodable:
  "encodable data \<Longrightarrow> hash_data sm data = Inr (sha256_hexdigest sm data)"
  by (simp add: hash_data_def)

lemma hash_data_Inr:
  "hash_data sm data = Inr h \<Longrightarrow> encodable data \<and> h = sha256_hexdigest sm data"
  by (auto simp: hash_data_def split: if_splits)

text \<open>
  The first loop returns the reviews whose digest is the hash of no cached entry, when
  every text can be encoded, and raises otherwise.
\<close>

lemma filter_new_eq:
  "filter_new sm cache reviews =
     (if list_all (\<lambda>review. encodable (r_text review)) reviews
      then Inr (filter (\<lambda>review. \<not> is_cached cache (sha256_hexdigest sm (r_text review)))
                  reviews)
      else Inl (UnicodeEncodeError ''surrogates not allowed''))"
  by (induction reviews) (auto simp: hash_data_def)

lemma filter_new_Inr:
  assumes "filter_new sm cache reviews = Inr new_reviews"
  shows "list_all (\<lambda>review. encodable (r_text review)) new_reviews"
    and "new_reviews =
      filter (\<lambda>review. \<not> is_cached cache (sha256_hexdigest sm (r_text review))) reviews"
proof -
  from assms have all: "list_all (\<lambda>review. encodable (r_text review)) reviews"
    and new: "new_reviews =
      filter (\<lambda>review. \<not> is_cached cache (sha256_hexdigest sm (r_text review))) reviews"
    by (auto simp: filter_new_eq split: if_splits)
  from all new show "list_all (\<lambda>review. encodable (r_text review)) new_reviews"
    by (auto simp: list_all_iff)
  from new show "new_reviews =
      filter (\<lambda>review. \<not> is_cached cache (sha256_hexdigest sm (r_text review))) reviews" .
qed

text \<open>The second loop appends one entry for each review it is given, in order.\<close>

lemma analyze_reviews_append:
  "list_all (\<lambda>review. encodable (r_text review)) reviews \<Longrightarrow>
   analyze_reviews analyzer sm reviews cache = cache @ map (analyzed_entry analyzer sm) reviews"
proof (induction reviews arbitrary: cache)
  case Nil
  show ?case by simp
next
  case (Cons review rest)
  obtain s l where sl: "analysis analyzer review = (s, l)"
    by (cases "analysis analyzer review")
  from Cons.prems show ?case
    by (simp add: Cons.IH analyze_sentiment_analysis sl analyzed_entry_def hash_data_encodable)
qed

lemma process_reviews_batch_new:
  assumes "fst (parse_reviews parser) = Inr (Some reviews)"
    and "filter_new sm cache reviews = Inr new_reviews"
  shows "process_reviews_batch parser analyzer sm cache =
     cache @ map (analyzed_entry analyzer sm) new_reviews"
  using assms filter_new_Inr(1) [OF assms(2)]
  by (simp add: process_reviews_batch_def analyze_reviews_append)

lemma process_reviews_batch_fetched:
  assumes "fst (parse_reviews parser) = Inr (Some reviews)"
    and "list_all (\<lambda>review. encodable (r_text review)) reviews"
  shows "process_reviews_batch parser analyzer sm cache =
     cache @ map (analyzed_entry analyzer sm)
       (filter (\<lambda>review. \<not> is_cached cache (sha256_hexdigest sm (r_text review))) reviews)"
  using assms(2) by (intro process_reviews_batch_new [OF assms(1)]) (simp add: filter_new_eq)

lemma process_reviews_batch_unencodable:
  assumes "fst (parse_reviews parser) = Inr (Some reviews)"
    and "\<not> list_all (\<lambda>review. encodable (r_text review)) reviews"
  shows "process_reviews_batch parser analyzer sm cache = cache"
  using assms by (simp add: process_reviews_batch_def filter_new_eq)

lemma parse_reviews_parser_of: "fst (parse_reviews (parser_of reviews)) = Inr (Some reviews)"
proof -
  have "parse_reviews (parser_of reviews) =
     (case load_reviews (parser_of reviews) 0 of Inr L \<Rightarrow> Inr (Some L) | Inl e \<Rightarrow> Inl e,
      \<lparr>loads = 0 + 1, sleeps = map (\<lambda>a. 2 ^ a) [0..<0], cleanups = 0\<rparr>)"
    by (intro parse_reviews_halt) (simp_all add: parser_of_def network_failures_def halts_at_def)
  then show ?thesis by (simp add: parser_of_def)
qed

lemma parse_reviews_parser_down:
  "fst (parse_reviews parser_down) = Inl (NetworkError ''Timeout while loading reviews'')"
proof -
  have "parse_reviews parser_down =
     (case load_reviews parser_down 2 of Inr L \<Rightarrow> Inr (Some L) | Inl e \<Rightarrow> Inl e,
      \<lparr>loads = 2 + 1, sleeps = map (\<lambda>a. 2 ^ a) [0..<2], cleanups = 2\<rparr>)"
    by (intro parse_reviews_halt)
       (simp_all add: parser_down_def network_failures_def halts_at_def upt_rec)
  then show ?thesis by (simp add: parser_down_def)
qed

text \<open>
  Claim C3 (fetch failure preserves state). When \<open>parse_reviews\<close> raises \<open>NetworkError\<close>
  or \<open>ParsingError\<close>, \<open>process_reviews_batch\<close> returns the cache it was given, with no
  entry added, removed or changed.
\<close>

theorem fetch_failure_preserves_cache:
  assumes "fst (parse_reviews parser) = Inl (NetworkError m) \<or>
           fst (parse_reviews parser) = Inl (ParsingError m)"
  shows "process_reviews_batch parser analyzer security_manager cache = cache"
  using assms by (auto simp: process_reviews_batch_def)

theorem fetch_failure_preserves_cache_witness:
  "fst (parse_reviews parser_down) = Inl (NetworkError ''Timeout while loading reviews'') \<and>
   process_reviews_batch parser_down offline_analyzer test_security_manager prior_cache =
     prior_cache"
  using fetch_failure_preserves_cache
    [of parser_down "''Timeout while loading reviews''" offline_analyzer test_security_manager
       prior_cache]
    parse_reviews_parser_down
  by simp

lemma c_hash_analyzed_entry [simp]:
  "c_hash (analyzed_entry analyzer sm review) = sha256_hexdigest sm (r_text review)"
  by (simp add: analyzed_entry_def new_entry_def)

lemma c_text_analyzed_entry [simp]:
  "c_text (analyzed_entry analyzer sm review) = r_text review"
  by (simp add: analyzed_entry_def new_entry_def)

lemmas hash_defs = hash_data_def encodable_def surrogate_def is_cached_def

text \<open>A review whose text is in the cache already is not stored again.\<close>

lemma cached_review_skipped:
  assumes "fst (parse_reviews parser) = Inr (Some [review])"
    and "hash_data security_manager (r_text review) = Inr review_hash"
    and "is_cached cache review_hash"
  shows "process_reviews_batch parser analyzer security_manager cache = cache"
  using assms(2,3) by (simp add: process_reviews_batch_def assms(1))

text \<open>
  Claim C1 (idempotent ingestion), where the code departs from it. A text that is not yet
  in the cache and comes twice in one batch passes the filter twice, since the filter
  looks at the cache as it was before the batch: the returned cache then holds two
  entries with the hash of that text.
\<close>

theorem duplicate_in_batch_stored_twice:
  assumes "fst (parse_reviews parser) = Inr (Some [review, review'])"
    and "r_text review' = r_text review"
    and "hash_data security_manager (r_text review) = Inr review_hash"
    and "\<not> is_cached cache review_hash"
  shows "length (filter (\<lambda>entry. c_hash entry = review_hash)
           (process_reviews_batch parser analyzer security_manager cache)) = 2"
proof -
  from hash_data_Inr [OF assms(3)]
  have enc: "encodable (r_text review)"
    and h: "review_hash = sha256_hexdigest security_manager (r_text review)"
    by simp_all
  have new: "filter_new security_manager cache [review, review'] = Inr [review, review']"
    using assms(2,4) enc h by (simp add: hash_data_encodable)
  have old: "filter (\<lambda>entry. c_hash entry = review_hash) cache = []"
    using assms(4) by (auto simp: is_cached_def list_ex_iff filter_empty_conv)
  show ?thesis
    using assms(2)
    by (simp add: process_reviews_batch_new [OF assms(1) new] old h [symmetric])
qed

theorem duplicate_in_batch_stored_twice_witness:
  "fst (parse_reviews (parser_of [great_review, great_review])) =
     Inr (Some [great_review, great_review]) \<and>
   hash_data test_security_manager (r_text great_review) =
     Inr (str_of ''hashed_Great service!'') \<and>
   \<not> is_cached [] (str_of ''hashed_Great service!'') \<and>
   length (filter (\<lambda>entry. c_hash entry = str_of ''hashed_Great service!'')
     (process_reviews_batch (parser_of [great_review, great_review]) offline_analyzer
        test_security_manager [])) = 2"
proof -
  have h: "hash_data test_security_manager (r_text great_review) =
     Inr (str_of ''hashed_Great service!'')"
    by (simp add: hash_defs example_defs)
  have n: "\<not> is_cached [] (str_of ''hashed_Great service!'')"
    by (simp add: is_cached_def)
  from duplicate_in_batch_stored_twice [OF parse_reviews_parser_of _ h n, of great_review
      offline_analyzer] h n parse_reviews_parser_of [of "[great_review, great_review]"]
  show ?thesis by simp
qed

lemma map_Inr_eq: "map (\<lambda>x. Inr (f x)) xs = map Inr ys \<Longrightarrow> map f xs = ys"
  by (induction xs arbitrary: ys) auto

lemma is_cached_iff: "is_cached cache review_hash \<longleftrightarrow> review_hash \<in> c_hash ` set cache"
  by (force simp: is_cached_def list_ex_iff image_iff)

lemma encodable_examples:
  "encodable (r_text great_review)" "encodable (r_text spaced_review)"
  "encodable (r_text russian_review)" "encodable (r_text plain_review)"
  "\<not> encodable (r_text surrogate_review)"
  by (simp_all add: encodable_def surrogate_def str_of_def great_review_def spaced_review_def
      russian_review_def plain_review_def surrogate_review_def)

lemma batch_of_two_new:
  assumes "encodable (r_text a)" and "encodable (r_text b)"
  shows "process_reviews_batch (parser_of [a, b]) analyzer sm [] =
     [analyzed_entry analyzer sm a, analyzed_entry analyzer sm b]"
  using assms
  by (simp add: process_reviews_batch_fetched [OF parse_reviews_parser_of] is_cached_def)


text \<open>
  Claim C5 (the fingerprint uses the normalized text) fails. The two texts
  \<open>Great  service!\<close> and \<open>Great service!\<close> are the same after preprocessing, yet the batch
  stores the digest of each raw text: two entries with two fingerprints, the first of
  which is not the digest of the normalized text.
\<close>

theorem fingerprint_normalized_counterexample:
  "preprocess_text offline_analyzer (PyStr (r_text spaced_review)) = str_of ''Great service!'' \<and>
   preprocess_text offline_analyzer (PyStr (r_text great_review)) = str_of ''Great service!'' \<and>
   map c_hash (process_reviews_batch (parser_of [spaced_review, great_review]) offline_analyzer
      test_security_manager []) =
     [str_of ''hashed_Great  service!'', str_of ''hashed_Great service!''] \<and>
   hash_data test_security_manager
      (preprocess_text offline_analyzer (PyStr (r_text spaced_review))) =
     Inr (str_of ''hashed_Great service!'') \<and>
   str_of ''hashed_Great  service!'' \<noteq> str_of ''hashed_Great service!''"
proof -
  have "process_reviews_batch (parser_of [spaced_review, great_review]) offline_analyzer
      test_security_manager [] =
     [analyzed_entry offline_analyzer test_security_manager spaced_review,
      analyzed_entry offline_analyzer test_security_manager great_review]"
    by (intro batch_of_two_new encodable_examples)
  then show ?thesis
    by (simp add: analyzer_defs example_defs hash_defs)
qed

text \<open>
  Claim C5 as amended. The fingerprint stored and compared is \<open>hash_data(review.text)\<close>,
  the digest of the raw review text, with no preprocessing. When every fetched text can
  be encoded, the batch keeps the prior cache and appends, for each fetched review whose
  raw-text digest is the hash of no prior entry, and in the order of the fetch, an entry
  with that raw text and that digest. When the text of some fetched review cannot be
  encoded, \<open>hash_data\<close> raises in the first loop and the batch returns the cache as it
  was.
\<close>

theorem fingerprint_of_raw_text:
  assumes "fst (parse_reviews parser) = Inr (Some reviews)"
  shows "(list_all (\<lambda>review. encodable (r_text review)) reviews \<longrightarrow>
           take (length cache) (process_reviews_batch parser analyzer security_manager cache) =
             cache \<and>
           map c_text
             (drop (length cache)
                (process_reviews_batch parser analyzer security_manager cache)) =
             map r_text
               (filter (\<lambda>review. sha256_hexdigest security_manager (r_text review) \<notin>
                                   c_hash ` set cache) reviews) \<and>
           map (\<lambda>entry. Inr (c_hash entry))
             (drop (length cache)
                (process_reviews_batch parser analyzer security_manager cache)) =
             map (\<lambda>review. hash_data security_manager (r_text review))
               (filter (\<lambda>review. sha256_hexdigest security_manager (r_text review) \<notin>
                                   c_hash ` set cache) reviews)) \<and>
         (\<not> list_all (\<lambda>review. encodable (r_text review)) reviews \<longrightarrow>
           process_reviews_batch parser analyzer security_manager cache = cache)"
proof (intro conjI impI)
  assume enc: "list_all (\<lambda>review. encodable (r_text review)) reviews"
  let ?new = "filter (\<lambda>review. sha256_hexdigest security_manager (r_text review) \<notin>
                                 c_hash ` set cache) reviews"
  have batch: "process_reviews_batch parser analyzer security_manager cache =
      cache @ map (analyzed_entry analyzer security_manager) ?new"
    by (simp add: process_reviews_batch_fetched [OF assms enc] is_cached_iff)
  show "take (length cache) (process_reviews_batch parser analyzer security_manager cache) =
      cache"
    by (simp add: batch)
  show "map c_text
      (drop (length cache) (process_reviews_batch parser analyzer security_manager cache)) =
      map r_text ?new"
    by (simp add: batch comp_def)
  have "hash_data security_manager (r_text review) =
      Inr (sha256_hexdigest security_manager (r_text review))" if "review \<in> set ?new" for review
    using that enc by (auto simp: list_all_iff hash_data_encodable)
  then show "map (\<lambda>entry. Inr (c_hash entry))
      (drop (length cache) (process_reviews_batch parser analyzer security_manager cache)) =
      map (\<lambda>review. hash_data security_manager (r_text review)) ?new"
    by (simp add: batch comp_def)
next
  assume "\<not> list_all (\<lambda>review. encodable (r_text review)) reviews"
  then show "process_reviews_batch parser analyzer security_manager cache = cache"
    by (rule process_reviews_batch_unencodable [OF assms])
qed

theorem fingerprint_of_raw_text_witness:
  "fst (parse_reviews (parser_of [spaced_review, great_review])) =
     Inr (Some [spaced_review, great_review]) \<and>
   list_all (\<lambda>review. encodable (r_text review)) [spaced_review, great_review] \<and>
   map c_text (process_reviews_batch (parser_of [spaced_review, great_review]) offline_analyzer
      test_security_manager []) =
     [str_of ''Great  service!'', str_of ''Great service!''] \<and>
   map c_hash (process_reviews_batch (parser_of [spaced_review, great_review]) offline_analyzer
      test_security_manager []) =
     [str_of ''hashed_Great  service!'', str_of ''hashed_Great service!''] \<and>
   \<not> list_all (\<lambda>review. encodable (r_text review)) [great_review, surrogate_review] \<and>
   process_reviews_batch (parser_of [great_review, surrogate_review]) offline_analyzer
      test_security_manager prior_cache = prior_cache"
proof -
  have enc: "list_all (\<lambda>review. encodable (r_text review)) [spaced_review, great_review]"
    by (simp add: encodable_examples)
  have unenc: "\<not> list_all (\<lambda>review. encodable (r_text review)) [great_review, surrogate_review]"
    by (simp add: encodable_examples)
  have h: "hash_data test_security_manager (str_of ''Great  service!'') =
      Inr (str_of ''hashed_Great  service!'')"
    "hash_data test_security_manager (str_of ''Great service!'') =
      Inr (str_of ''hashed_Great service!'')"
    by (simp_all add: hash_defs example_defs)
  have t: "r_text spaced_review = str_of ''Great  service!''"
    "r_text great_review = str_of ''Great service!''"
    by (simp_all add: example_defs)
  let ?batch = "process_reviews_batch (parser_of [spaced_review, great_review]) offline_analyzer
      test_security_manager []"
  from fingerprint_of_raw_text
    [OF parse_reviews_parser_of, of "[spaced_review, great_review]" "[]" offline_analyzer
       test_security_manager] enc
  have texts: "map c_text ?batch = [str_of ''Great  service!'', str_of ''Great service!'']"
    and inr: "map (\<lambda>entry. Inr (c_hash entry) :: error + pystr) ?batch =
      map Inr [str_of ''hashed_Great  service!'', str_of ''hashed_Great service!'']"
    by (simp_all add: h t)
  from inr have hashes: "map c_hash ?batch =
      [str_of ''hashed_Great  service!'', str_of ''hashed_Great service!'']"
    by (rule map_Inr_eq)
  from fingerprint_of_raw_text
    [OF parse_reviews_parser_of, of "[great_review, surrogate_review]" prior_cache
       offline_analyzer test_security_manager] unenc
  have unchanged: "process_reviews_batch (parser_of [great_review, surrogate_review])
      offline_analyzer test_security_manager prior_cache = prior_cache"
    by simp
  from texts hashes unchanged enc unenc parse_reviews_parser_of [of "[spaced_review, great_review]"]
  show ?thesis by simp
qed

section \<open>The statistics of the run\<close>

text \<open>
  As written, \<open>main\<close> does not reach its statistics block: the construction of the
  analyzer passes two keywords that \<open>SentimentAnalyzer.__init__\<close> does not take. The
  block is therefore studied as a function of the cache it reads.
\<close>

lemma main_analyzer_construction:
  "call_with_keywords SentimentAnalyzer_parameters main_analyzer_keywords =
     Inl (TypeError ''min_confidence'')"
  by (simp add: call_with_keywords_def SentimentAnalyzer_parameters_def
      main_analyzer_keywords_def)







section \<open>The cache at the start of a run\<close>

text \<open>
  Claim C2 (the persisted cache is never loaded). For every security manager,
  \<open>load_cache\<close> returns the empty list and raises nothing: \<open>load_secure_cache\<close> is
  neither an attribute nor a method of \<open>SecurityManager\<close>, the call raises
  \<open>AttributeError\<close>, and the last handler returns \<open>[]\<close>. So \<open>main\<close> starts every run from
  the empty cache, whether the cache is enabled or not.
\<close>

theorem load_cache_always_empty:
  "load_cache security_manager bound = Inr [] \<and>
   initial_cache enabled security_manager bound = Inr []"
  by (simp add: initial_cache_def load_cache_def call_method_def SecurityManager_attributes_def
      SecurityManager_methods_def)

section \<open>The validation of the configuration\<close>

lemma check_positive_int_iff:
  "check_positive_int d key failed = Inr () \<longleftrightarrow> positive_int_field d key"
  by (cases d)
     (auto simp: check_positive_int_def positive_int_field_def dict_get_def field_def
       split: option.splits)

lemma validate_parser_iff:
  "validate_parser d = Inr () \<longleftrightarrow>
     positive_int_field d ''max_retries'' \<and> positive_int_field d ''timeout''"
  using check_positive_int_iff [of d "''max_retries''" MaxRetriesInvalid]
    check_positive_int_iff [of d "''timeout''" TimeoutInvalid]
  by (auto simp: validate_parser_def then_do_def split: sum.splits)

lemma validate_analyzer_iff:
  "validate_analyzer d = Inr () \<longleftrightarrow> unit_interval_field d ''min_confidence''"
  by (cases d)
     (auto simp: validate_analyzer_def unit_interval_field_def dict_get_def field_def
       split: option.splits)

lemma validate_notifier_iff: "validate_notifier d = Inr () \<longleftrightarrow> notifier_ok d"
  by (cases d)
     (auto simp: validate_notifier_def notifier_ok_def truthy_field_def is_dict_def dict_get_def
       field_def split: option.splits)

lemma validate_cache_iff: "validate_cache d = Inr () \<longleftrightarrow> positive_int_field d ''max_size''"
  by (simp add: validate_cache_def check_positive_int_iff)

lemma validate_logging_iff: "validate_logging d = Inr () \<longleftrightarrow> level_ok d"
  by (cases d)
     (auto simp: validate_logging_def level_ok_def dict_get_def field_def split: option.splits)

lemma then_do_iff: "then_do a b = Inr () \<longleftrightarrow> a = Inr () \<and> b = Inr ()"
  by (auto simp: then_do_def split: sum.splits)

lemma validate_section_present:
  "map_of config name \<noteq> None \<Longrightarrow>
   validate_section config name validate = validate (section_of config name)"
  by (auto simp: validate_section_def subscript_def section_of_def)

lemma find_missing_iff:
  "find (\<lambda>section. map_of config section = None) required_sections = None \<longleftrightarrow>
   list_all (\<lambda>section. map_of config section \<noteq> None) required_sections"
  by (auto simp: find_None_iff list_all_iff)

lemma sections_present:
  assumes "list_all (\<lambda>section. map_of config section \<noteq> None) required_sections"
  shows "map_of config ''parser'' \<noteq> None" and "map_of config ''analyzer'' \<noteq> None"
    and "map_of config ''notifier'' \<noteq> None" and "map_of config ''cache'' \<noteq> None"
    and "map_of config ''logging'' \<noteq> None"
  using assms by (simp_all add: required_sections_def)

text \<open>\<open>_validate_config\<close> returns exactly on the configurations that meet the constraints.\<close>

lemma validate_config_iff: "validate_config config = Inr () \<longleftrightarrow> config_ok config"
proof (cases "list_all (\<lambda>section. map_of config section \<noteq> None) required_sections")
  case False
  then have "find (\<lambda>section. map_of config section = None) required_sections \<noteq> None"
    by (simp add: find_missing_iff)
  then show ?thesis
    using False by (auto simp: validate_config_def config_ok_def)
next
  case True
  then have none: "find (\<lambda>section. map_of config section = None) required_sections = None"
    by (simp add: find_missing_iff)
  note present = sections_present [OF True]
  show ?thesis
    using True
    by (simp add: validate_config_def none config_ok_def then_do_iff
        validate_section_present [OF present(1)] validate_section_present [OF present(2)]
        validate_section_present [OF present(3)] validate_section_present [OF present(4)]
        validate_section_present [OF present(5)]
        validate_parser_iff validate_analyzer_iff validate_notifier_iff validate_cache_iff
        validate_logging_iff)
qed

lemma dict_get_error: "dict_get d key = Inl e \<Longrightarrow> config_error e"
  by (cases d) (auto simp: dict_get_def config_error_def)

lemma check_positive_int_error: "check_positive_int d key failed = Inl e \<Longrightarrow> config_error e"
  by (auto simp: check_positive_int_def config_error_def split: sum.splits if_splits
      dest: dict_get_error)

lemma then_do_error:
  "then_do a b = Inl e \<Longrightarrow> (a = Inl e \<Longrightarrow> P) \<Longrightarrow> (b = Inl e \<Longrightarrow> P) \<Longrightarrow> P"
  by (auto simp: then_do_def split: sum.splits)

lemma validate_parser_error: "validate_parser d = Inl e \<Longrightarrow> config_error e"
  by (auto simp: validate_parser_def elim!: then_do_error dest: check_positive_int_error)

lemma validate_analyzer_error: "validate_analyzer d = Inl e \<Longrightarrow> config_error e"
  by (auto simp: validate_analyzer_def config_error_def split: sum.splits if_splits
      dest: dict_get_error)

lemma validate_notifier_error: "validate_notifier d = Inl e \<Longrightarrow> config_error e"
  by (auto simp: validate_notifier_def config_error_def split: sum.splits if_splits
      dest: dict_get_error)

lemma validate_cache_error: "validate_cache d = Inl e \<Longrightarrow> config_error e"
  by (auto simp: validate_cache_def dest: check_positive_int_error)

lemma validate_logging_error: "validate_logging d = Inl e \<Longrightarrow> config_error e"
  by (auto simp: validate_logging_def config_error_def split: sum.splits if_splits
      dest: dict_get_error)

lemma validate_config_error: "validate_config config = Inl e \<Longrightarrow> config_error e"
proof (cases "find (\<lambda>section. map_of config section = None) required_sections")
  case (Some missing)
  assume "validate_config config = Inl e"
  with Some show ?thesis by (auto simp: validate_config_def config_error_def)
next
  case None
  then have "list_all (\<lambda>section. map_of config section \<noteq> None) required_sections"
    by (simp add: find_missing_iff)
  note present = sections_present [OF this]
  assume "validate_config config = Inl e"
  then show ?thesis
    unfolding validate_config_def None option.case
      validate_section_present [OF present(1)] validate_section_present [OF present(2)]
      validate_section_present [OF present(3)] validate_section_present [OF present(4)]
      validate_section_present [OF present(5)]
    by (auto elim!: then_do_error dest: validate_parser_error validate_analyzer_error
        validate_notifier_error validate_cache_error validate_logging_error)
qed

lemma raises_iff: "(\<exists>e. r = Inl e) \<longleftrightarrow> r \<noteq> Inr ()" for r :: "error + unit"
  by (cases r) auto

lemma load_config_raises:
  assumes "validate_config config \<noteq> Inr ()"
  shows "\<exists>e. load_config update_configs (Some config) = Inl e"
  using assms
  by (cases "validate_config config") (auto simp: load_config_def then_do_def)

lemmas config_defs =
  default_config_def quiet_config_def float_retries_config_def set_field_def
  required_sections_def valid_levels_def section_of_def field_def

lemmas validate_defs =
  validate_config_def then_do_def validate_section_def subscript_def validate_parser_def
  validate_analyzer_def validate_notifier_def validate_cache_def validate_logging_def
  check_positive_int_def dict_get_def

lemma validate_default_config:
  "validate_config default_config = Inl (ValueError TelegramTokenRequired)"
  by (simp add: validate_defs config_defs)

lemma validate_quiet_config: "validate_config quiet_config = Inr ()"
  by (simp add: validate_defs config_defs str_of_def)

text \<open>
  Without a configuration file \<open>load_config\<close> raises: the default configuration it
  tries to save has the notifier enabled and no token.
\<close>

lemma load_config_without_file:
  "load_config update_configs None = Inl (ValueError TelegramTokenRequired)"
  by (simp add: load_config_def save_config_def validate_default_config then_do_def)

text \<open>
  Claim C9 (eager validation) fails as an equivalence: with \<open>max_retries\<close> set to the
  float 2.5, \<open>_validate_config\<close> raises, since the value is not an integer, while none of
  the listed constraints is violated (all sections are there, 2.5 is not below 1, and
  the other values are the defaults, with the notifier disabled).
\<close>

theorem validate_config_counterexample:
  "validate_config float_retries_config = Inl (ValueError MaxRetriesInvalid) \<and>
   \<not> spec_violation float_retries_config"
  by (simp add: validate_defs config_defs spec_violation_def number_below_one_def
      number_outside_unit_def level_ok_def truthy_field_def str_of_def)

text \<open>
  Claim C9 as amended. \<open>_validate_config\<close> raises, a \<open>ValueError\<close> of its own or the
  \<open>AttributeError\<close> of a section that is no dictionary, if and only if one of these
  holds: a required section among parser, analyzer, notifier, cache, logging, security
  is missing; one of the first five is not a dictionary; \<open>max_retries\<close>, \<open>timeout\<close> or
  \<open>max_size\<close> is missing, not an integer, or below 1; \<open>min_confidence\<close> is missing,
  not a number, or outside \<open>[0, 1]\<close>; the level is not one of DEBUG, INFO, WARNING,
  ERROR, CRITICAL; the notifier is enabled with an empty or missing token or chat
  identifier. In particular, with the notifier enabled and an empty token the validation
  fails, \<open>load_config\<close> raises, and \<open>main\<close> ends before the statements that follow it,
  the fetch among them.
\<close>

theorem validate_config_raises_iff:
  "((\<exists>e. validate_config config = Inl e) \<longleftrightarrow> \<not> config_ok config) \<and>
   (validate_config config = Inl e \<longrightarrow> config_error e) \<and>
   (truthy_field (section_of config ''notifier'') ''enabled'' \<and>
    \<not> truthy_field (section_of config ''notifier'') ''telegram_token'' \<longrightarrow>
      (\<exists>e. validate_config config = Inl e) \<and>
      (\<exists>e. load_config update_configs (Some config) = Inl e) \<and>
      main update_configs (Some config) rest = Inl (UnboundLocalError ''parser''))"
proof (intro conjI impI)
  show iff: "(\<exists>e. validate_config config = Inl e) \<longleftrightarrow> \<not> config_ok config"
    by (simp add: raises_iff validate_config_iff)
  show "config_error e" if "validate_config config = Inl e"
    using that by (rule validate_config_error)
  assume "truthy_field (section_of config ''notifier'') ''enabled'' \<and>
    \<not> truthy_field (section_of config ''notifier'') ''telegram_token''"
  then have "\<not> config_ok config"
    by (auto simp: config_ok_def notifier_ok_def)
  with iff show raises: "\<exists>e. validate_config config = Inl e" by simp
  then have "validate_config config \<noteq> Inr ()" by auto
  then show load: "\<exists>e. load_config update_configs (Some config) = Inl e"
    by (rule load_config_raises)
  then show "main update_configs (Some config) rest = Inl (UnboundLocalError ''parser'')"
    by (auto simp: main_def)
qed

theorem validate_config_raises_iff_witness:
  "validate_config default_config = Inl (ValueError TelegramTokenRequired) \<and>
   \<not> config_ok default_config \<and>
   config_error (ValueError TelegramTokenRequired) \<and>
   truthy_field (section_of default_config ''notifier'') ''enabled'' \<and>
   \<not> truthy_field (section_of default_config ''notifier'') ''telegram_token'' \<and>
   main (\<lambda>config. Inr ()) (Some default_config) (\<lambda>config. Inr config) =
     Inl (UnboundLocalError ''parser'') \<and>
   validate_config quiet_config = Inr () \<and>
   config_ok quiet_config"
proof -
  have enabled: "truthy_field (section_of default_config ''notifier'') ''enabled'' \<and>
      \<not> truthy_field (section_of default_config ''notifier'') ''telegram_token''"
    by (simp add: truthy_field_def config_defs)
  from validate_config_raises_iff
    [where config = default_config and e = "ValueError TelegramTokenRequired"
       and update_configs = "\<lambda>config. Inr ()" and rest = "\<lambda>config. Inr config"]
    validate_config_raises_iff
    [where config = quiet_config and e = "ValueError TelegramTokenRequired"
       and update_configs = "\<lambda>config. Inr ()" and rest = "\<lambda>config. Inr config"]
    enabled validate_default_config validate_quiet_config
  show ?thesis by simp
qed

end
